theory Spec2Isabelle
  imports Complex_Main
begin

section \<open>Numbers\<close>

text \<open>
  The filter computes with Python floats and numpy float64 arrays. They are modelled as
  real numbers extended with the IEEE special values the code tests for: both infinities
  and not-a-number. Arithmetic on finite values is exact (rounding, overflow and
  underflow are not modelled); the special values follow the IEEE rules numpy applies
  with its default error state, where an invalid operation or a division by zero gives
  a value and a warning, never an exception. Zero is unsigned: every divisor of this
  program is an absolute value or a sum of non-negative numbers, so a zero divisor is
  a positive zero there.
\<close>

datatype npfloat = Fin real | PInf | NInf | NaN

fun isnan :: "npfloat \<Rightarrow> bool" where
  "isnan NaN = True"
| "isnan _ = False"

fun fneg :: "npfloat \<Rightarrow> npfloat" where
  "fneg (Fin a) = Fin (- a)"
| "fneg PInf = NInf"
| "fneg NInf = PInf"
| "fneg NaN = NaN"

fun fabs :: "npfloat \<Rightarrow> npfloat" where
  "fabs (Fin a) = Fin \<bar>a\<bar>"
| "fabs PInf = PInf"
| "fabs NInf = PInf"
| "fabs NaN = NaN"

fun fadd :: "npfloat \<Rightarrow> npfloat \<Rightarrow> npfloat" where
  "fadd (Fin a) (Fin b) = Fin (a + b)"
| "fadd (Fin a) PInf = PInf"
| "fadd (Fin a) NInf = NInf"
| "fadd PInf (Fin b) = PInf"
| "fadd PInf PInf = PInf"
| "fadd PInf NInf = NaN"
| "fadd NInf (Fin b) = NInf"
| "fadd NInf NInf = NInf"
| "fadd NInf PInf = NaN"
| "fadd NaN _ = NaN"
| "fadd _ NaN = NaN"

definition fsub :: "npfloat \<Rightarrow> npfloat \<Rightarrow> npfloat" where
  "fsub a b = fadd a (fneg b)"

fun fmul :: "npfloat \<Rightarrow> npfloat \<Rightarrow> npfloat" where
  "fmul (Fin a) (Fin b) = Fin (a * b)"
| "fmul (Fin a) PInf = (if a = 0 then NaN else if 0 < a then PInf else NInf)"
| "fmul (Fin a) NInf = (if a = 0 then NaN else if 0 < a then NInf else PInf)"
| "fmul PInf (Fin b) = (if b = 0 then NaN else if 0 < b then PInf else NInf)"
| "fmul NInf (Fin b) = (if b = 0 then NaN else if 0 < b then NInf else PInf)"
| "fmul PInf PInf = PInf"
| "fmul PInf NInf = NInf"
| "fmul NInf PInf = NInf"
| "fmul NInf NInf = PInf"
| "fmul NaN _ = NaN"
| "fmul _ NaN = NaN"

fun fdiv :: "npfloat \<Rightarrow> npfloat \<Rightarrow> npfloat" where
  "fdiv (Fin a) (Fin b) =
     (if b = 0 then (if a = 0 then NaN else if 0 < a then PInf else NInf)
      else Fin (a / b))"
| "fdiv (Fin a) PInf = Fin 0"
| "fdiv (Fin a) NInf = Fin 0"
| "fdiv PInf (Fin b) = (if 0 \<le> b then PInf else NInf)"
| "fdiv NInf (Fin b) = (if 0 \<le> b then NInf else PInf)"
| "fdiv PInf PInf = NaN"
| "fdiv PInf NInf = NaN"
| "fdiv NInf PInf = NaN"
| "fdiv NInf NInf = NaN"
| "fdiv NaN _ = NaN"
| "fdiv _ NaN = NaN"

text \<open>Comparisons: every comparison with not-a-number is false.\<close>

fun fle :: "npfloat \<Rightarrow> npfloat \<Rightarrow> bool" where
  "fle (Fin a) (Fin b) = (a \<le> b)"
| "fle (Fin a) PInf = True"
| "fle (Fin a) NInf = False"
| "fle PInf (Fin b) = False"
| "fle PInf PInf = True"
| "fle PInf NInf = False"
| "fle NInf (Fin b) = True"
| "fle NInf PInf = True"
| "fle NInf NInf = True"
| "fle NaN _ = False"
| "fle _ NaN = False"

definition flt :: "npfloat \<Rightarrow> npfloat \<Rightarrow> bool" where
  "flt a b = (fle a b \<and> a \<noteq> b)"

section \<open>Exceptions\<close>

datatype pf_error = ValueError | IndexError | ZeroDivisionError | LinAlgError | AttributeError

text \<open>
  A method that raises before its first assignment leaves the attributes of the node as
  they were before the call. That is the case for the motion update, the measurement
  update, the pose estimate and resampling. \<open>after_call\<close> reads what such a
  call leaves behind from what was there before it and the call's result.
\<close>

definition after_call :: "'s \<Rightarrow> pf_error + 's \<Rightarrow> 's" where
  "after_call before res = (case res of Inl _ \<Rightarrow> before | Inr after \<Rightarrow> after)"

section \<open>Numpy reductions used by the filter\<close>

text \<open>\<open>np.sum\<close>: the sum of the elements, 0 for an empty array.\<close>

definition np_sum :: "npfloat list \<Rightarrow> npfloat" where
  "np_sum xs = foldl fadd (Fin 0) xs"

text \<open>\<open>np.min\<close>: propagates not-a-number; raises ValueError on an empty array.\<close>

definition np_minimum :: "npfloat \<Rightarrow> npfloat \<Rightarrow> npfloat" where
  "np_minimum a b = (if isnan a then a else if isnan b then b else if fle a b then a else b)"

definition np_min :: "npfloat list \<Rightarrow> pf_error + npfloat" where
  "np_min xs = (case xs of [] \<Rightarrow> Inl ValueError | v # vs \<Rightarrow> Inr (foldl np_minimum v vs))"

text \<open>
  \<open>np.argmax\<close>: the index of the first maximum, where not-a-number counts as
  maximal (the scan stops at the first one); raises ValueError on an empty array.
  \<open>argmax_scan vs i mi mp\<close> scans the remaining values \<open>vs\<close>, the first of which has
  index \<open>i\<close>, with \<open>mp\<close> the best value so far and \<open>mi\<close> its index.
\<close>

fun argmax_scan :: "npfloat list \<Rightarrow> nat \<Rightarrow> nat \<Rightarrow> npfloat \<Rightarrow> nat" where
  "argmax_scan [] i mi mp = mi"
| "argmax_scan (v # vs) i mi mp =
     (if isnan mp then mi
      else if \<not> fle v mp then argmax_scan vs (Suc i) i v
      else argmax_scan vs (Suc i) mi mp)"

definition np_argmax :: "npfloat list \<Rightarrow> pf_error + nat" where
  "np_argmax xs = (case xs of [] \<Rightarrow> Inl ValueError | v # vs \<Rightarrow> Inr (argmax_scan vs 1 0 v))"

section \<open>Particles\<close>

record particle =
  x :: real
  y :: real
  theta :: real
  w :: npfloat

text \<open>\<open>Particle(x, y, theta)\<close> with the constructor's default weight 1.0.\<close>

definition Particle :: "real \<Rightarrow> real \<Rightarrow> real \<Rightarrow> particle" where
  "Particle px py pt = \<lparr>x = px, y = py, theta = pt, w = Fin 1\<rparr>"

section \<open>Measurement update\<close>

text \<open>
  \<open>update_particles_with_laser\<close>. The map's distance query is an external
  collaborator, taken as the parameter \<open>occ\<close>: it answers for each position with the
  distance to the closest obstacle, or with not-a-number. The bearings of the scan are
  not used. The method raises when the scan is empty (\<open>np.min\<close>) and when the
  population is empty (\<open>errors[0]\<close>).
\<close>

definition particle_distances :: "(real \<Rightarrow> real \<Rightarrow> npfloat) \<Rightarrow> particle list \<Rightarrow> npfloat list" where
  "particle_distances occ cloud = map (\<lambda>p. occ (x p) (y p)) cloud"

definition laser_errors :: "npfloat list \<Rightarrow> npfloat \<Rightarrow> npfloat list" where
  "laser_errors dists robot_distance =
     (let errors = map (\<lambda>d. fabs (fsub d robot_distance)) dists
      in map (\<lambda>e. if isnan e then Fin 5 else e) errors)"

definition error_ratio :: "npfloat list \<Rightarrow> pf_error + npfloat list" where
  "error_ratio errors =
     (case errors of [] \<Rightarrow> Inl IndexError | e0 # _ \<Rightarrow> Inr (map (\<lambda>e. fdiv e0 e) errors))"

definition laser_weights :: "npfloat list \<Rightarrow> npfloat list" where
  "laser_weights ratio = map (\<lambda>q. fdiv q (np_sum ratio)) ratio"

definition assign_weights :: "particle list \<Rightarrow> npfloat list \<Rightarrow> particle list" where
  "assign_weights cloud weights =
     map (\<lambda>(p, wi). if isnan wi then p\<lparr>w := Fin 0\<rparr> else p\<lparr>w := wi\<rparr>) (zip cloud weights)"

definition update_particles_with_laser ::
  "(real \<Rightarrow> real \<Rightarrow> npfloat) \<Rightarrow> particle list \<Rightarrow> npfloat list \<Rightarrow> real list
     \<Rightarrow> pf_error + particle list" where
  "update_particles_with_laser occ cloud r bearings =
     (let dists = particle_distances occ cloud in
      case np_min r of
        Inl e \<Rightarrow> Inl e
      | Inr robot_distance \<Rightarrow>
          (case error_ratio (laser_errors dists robot_distance) of
             Inl e \<Rightarrow> Inl e
           | Inr ratio \<Rightarrow> Inr (assign_weights cloud (laser_weights ratio))))"

section \<open>Poses and rigid transforms\<close>

text \<open>
  A pose in the odometry frame is the triple the transform helper's
  \<open>convert_pose_to_xy_and_theta\<close> returns. A pose matrix is a 3 by 3 array, written
  as its three rows.
\<close>

type_synonym xy_theta = "real \<times> real \<times> real"

type_synonym mat3 = "(real \<times> real \<times> real) \<times> (real \<times> real \<times> real) \<times> (real \<times> real \<times> real)"

definition create_pose :: "xy_theta \<Rightarrow> mat3" where
  "create_pose v_pose =
     (case v_pose of (v0, v1, v2) \<Rightarrow>
        ((cos v2, - sin v2, v0),
         (sin v2, cos v2, v1),
         (0, 0, 1)))"

text \<open>The matrix product \<open>A @ B\<close>.\<close>

definition matmul :: "mat3 \<Rightarrow> mat3 \<Rightarrow> mat3" where
  "matmul A B =
     (case A of ((a00, a01, a02), (a10, a11, a12), (a20, a21, a22)) \<Rightarrow>
      case B of ((b00, b01, b02), (b10, b11, b12), (b20, b21, b22)) \<Rightarrow>
        ((a00 * b00 + a01 * b10 + a02 * b20,
          a00 * b01 + a01 * b11 + a02 * b21,
          a00 * b02 + a01 * b12 + a02 * b22),
         (a10 * b00 + a11 * b10 + a12 * b20,
          a10 * b01 + a11 * b11 + a12 * b21,
          a10 * b02 + a11 * b12 + a12 * b22),
         (a20 * b00 + a21 * b10 + a22 * b20,
          a20 * b01 + a21 * b11 + a22 * b21,
          a20 * b02 + a21 * b12 + a22 * b22)))"

definition det3 :: "mat3 \<Rightarrow> real" where
  "det3 A =
     (case A of ((a00, a01, a02), (a10, a11, a12), (a20, a21, a22)) \<Rightarrow>
        a00 * (a11 * a22 - a12 * a21) - a01 * (a10 * a22 - a12 * a20)
          + a02 * (a10 * a21 - a11 * a20))"

text \<open>
  \<open>np.linalg.inv\<close>: the inverse of the matrix, LinAlgError when it is singular.
  In exact arithmetic the inverse is the adjugate divided by the determinant.
\<close>

definition np_linalg_inv :: "mat3 \<Rightarrow> pf_error + mat3" where
  "np_linalg_inv A =
     (case A of ((a00, a01, a02), (a10, a11, a12), (a20, a21, a22)) \<Rightarrow>
        let d = det3 A in
        if d = 0 then Inl LinAlgError
        else Inr
          (((a11 * a22 - a12 * a21) / d, (a02 * a21 - a01 * a22) / d, (a01 * a12 - a02 * a11) / d),
           ((a12 * a20 - a10 * a22) / d, (a00 * a22 - a02 * a20) / d, (a02 * a10 - a00 * a12) / d),
           ((a10 * a21 - a11 * a20) / d, (a01 * a20 - a00 * a21) / d, (a00 * a11 - a01 * a10) / d)))"

text \<open>
  \<open>np.arctan2 b a\<close>: the angle of the point \<open>(a, b)\<close>, in the interval from \<open>-\<pi>\<close>
  to \<open>\<pi>\<close>.
\<close>

definition arctan2 :: "real \<Rightarrow> real \<Rightarrow> real" where
  "arctan2 b a =
     (if 0 < a then arctan (b / a)
      else if a < 0 then (if 0 \<le> b then arctan (b / a) + pi else arctan (b / a) - pi)
      else if 0 < b then pi / 2
      else if b < 0 then - (pi / 2)
      else 0)"

text \<open>
  \<open>Particle.as_pose\<close>. The conversion from Euler angles to a quaternion is an
  external helper, taken as the parameter \<open>quaternion_from_euler\<close>.
\<close>

type_synonym quaternion = "real \<times> real \<times> real \<times> real"

record pose =
  position :: "real \<times> real \<times> real"
  orientation :: quaternion

definition as_pose :: "(real \<Rightarrow> real \<Rightarrow> real \<Rightarrow> quaternion) \<Rightarrow> particle \<Rightarrow> pose" where
  "as_pose quaternion_from_euler p =
     \<lparr>position = (x p, y p, 0), orientation = quaternion_from_euler 0 0 (theta p)\<rparr>"

section \<open>The node\<close>

text \<open>
  The attributes of \<open>ParticleFilter\<close> that the estimation reads or writes.
  \<open>current_odom_xy_theta\<close> starts as the empty list, here \<open>None\<close>; \<open>odom_pose\<close> and
  \<open>robot_pose\<close> do not exist until they are first assigned, here \<open>None\<close> as well.
\<close>

record pf_state =
  n_particles :: nat
  d_thresh :: real
  a_thresh :: real
  particle_cloud :: "particle list"
  current_odom_xy_theta :: "xy_theta option"
  odom_pose :: "xy_theta option"
  robot_pose :: "pose option"

definition init_state :: pf_state where
  "init_state =
     \<lparr>n_particles = 100, d_thresh = 2 / 10, a_thresh = pi / 6, particle_cloud = [],
      current_odom_xy_theta = None, odom_pose = None, robot_pose = None\<rparr>"

section \<open>Update trigger\<close>

definition moved_far_enough_to_update :: "pf_state \<Rightarrow> xy_theta \<Rightarrow> pf_error + bool" where
  "moved_far_enough_to_update s new_odom_xy_theta =
     (case current_odom_xy_theta s of
        None \<Rightarrow> Inl IndexError
      | Some (c0, c1, c2) \<Rightarrow>
          (case new_odom_xy_theta of (n0, n1, n2) \<Rightarrow>
             Inr (\<bar>n0 - c0\<bar> > d_thresh s \<or> \<bar>n1 - c1\<bar> > d_thresh s \<or> \<bar>n2 - c2\<bar> > a_thresh s)))"

section \<open>Pose estimate\<close>

text \<open>
  \<open>update_robot_pose\<close>: the pose of the particle at the index \<open>np.argmax\<close> gives.
  The call that hands the pose to the transform helper changes nothing in the node
  and is left out.
\<close>

definition update_robot_pose ::
  "(real \<Rightarrow> real \<Rightarrow> real \<Rightarrow> quaternion) \<Rightarrow> pf_state \<Rightarrow> pf_error + pf_state" where
  "update_robot_pose quaternion_from_euler s =
     (let weights = map w (particle_cloud s) in
      case np_argmax weights of
        Inl e \<Rightarrow> Inl e
      | Inr k \<Rightarrow>
          (let probable_particle = particle_cloud s ! k
           in Inr (s\<lparr>robot_pose := Some (as_pose quaternion_from_euler probable_particle)\<rparr>)))"

section \<open>Motion update\<close>

definition move_particle :: "mat3 \<Rightarrow> particle \<Rightarrow> particle" where
  "move_particle delta_matrix p =
     (case matmul (create_pose (x p, y p, theta p)) delta_matrix of
        ((m00, m01, m02), (m10, m11, m12), (m20, m21, m22)) \<Rightarrow>
          p\<lparr>x := m02, y := m12, theta := arctan2 m10 m00\<rparr>)"

definition update_particles_with_odom :: "pf_state \<Rightarrow> pf_error + pf_state" where
  "update_particles_with_odom s =
     (case odom_pose s of
        None \<Rightarrow> Inl AttributeError
      | Some new_odom_xy_theta \<Rightarrow>
          (case current_odom_xy_theta s of
             None \<Rightarrow> Inr (s\<lparr>current_odom_xy_theta := Some new_odom_xy_theta\<rparr>)
           | Some cur \<Rightarrow>
               (case np_linalg_inv (create_pose cur) of
                  Inl e \<Rightarrow> Inl e
                | Inr inv_curr \<Rightarrow>
                    (let delta_matrix = matmul inv_curr (create_pose new_odom_xy_theta)
                     in Inr (s\<lparr>current_odom_xy_theta := Some new_odom_xy_theta,
                               particle_cloud := map (move_particle delta_matrix) (particle_cloud s)\<rparr>)))))"

section \<open>Initialization\<close>

text \<open>
  \<open>initialize_particle_cloud\<close>. The population is emptied before the angle step is
  computed, and the division raises ZeroDivisionError when \<open>n_particles\<close> is 0.
\<close>

definition seed_particles :: "xy_theta \<Rightarrow> nat \<Rightarrow> real \<Rightarrow> particle list" where
  "seed_particles xy_theta n delta_theta =
     (case xy_theta of (x0, y0, theta0) \<Rightarrow>
        map (\<lambda>i. Particle x0 y0 (theta0 + delta_theta * real i)) [0..<n])"

definition initialize_particle_cloud ::
  "(real \<Rightarrow> real \<Rightarrow> real \<Rightarrow> quaternion) \<Rightarrow> pf_state \<Rightarrow> xy_theta option \<Rightarrow> pf_error + pf_state" where
  "initialize_particle_cloud quaternion_from_euler s xy_theta =
     (case (case xy_theta of None \<Rightarrow> odom_pose s | Some v \<Rightarrow> Some v) of
        None \<Rightarrow> Inl AttributeError
      | Some mean \<Rightarrow>
          if n_particles s = 0 then Inl ZeroDivisionError
          else
            (let delta_theta = 2 * pi / real (n_particles s)
             in update_robot_pose quaternion_from_euler
                  (s\<lparr>particle_cloud := seed_particles mean (n_particles s) delta_theta\<rparr>)))"

section \<open>Resampling\<close>

text \<open>
  \<open>np.percentile\<close> with its default linear interpolation between the two closest
  ranks of the sorted values. The interpolation is written as numpy's \<open>_lerp\<close>
  computes it; the weighted sum older versions compute agrees with it on finite values.
  An array holding not-a-number has the percentile not-a-number; an empty array has no
  rank to read.
\<close>

fun insort_np :: "npfloat \<Rightarrow> npfloat list \<Rightarrow> npfloat list" where
  "insort_np v [] = [v]"
| "insort_np v (u # us) = (if fle v u then v # u # us else u # insort_np v us)"

definition sort_np :: "npfloat list \<Rightarrow> npfloat list" where
  "sort_np vs = foldr insort_np vs []"

definition lerp :: "npfloat \<Rightarrow> npfloat \<Rightarrow> real \<Rightarrow> npfloat" where
  "lerp a b t =
     (let diff_b_a = fsub b a
      in if 1 / 2 \<le> t then fsub b (fmul diff_b_a (Fin (1 - t)))
         else fadd a (fmul diff_b_a (Fin t)))"

definition np_percentile :: "npfloat list \<Rightarrow> real \<Rightarrow> pf_error + npfloat" where
  "np_percentile a q =
     (if a = [] then Inl IndexError
      else if list_ex isnan a then Inr NaN
      else
        (let n = length a;
             sorted_a = sort_np a;
             virtual_index = real (n - 1) * (q / 100);
             previous_index = nat \<lfloor>virtual_index\<rfloor>;
             next_index = min (previous_index + 1) (n - 1);
             gamma = virtual_index - real previous_index
         in Inr (lerp (sorted_a ! previous_index) (sorted_a ! next_index) gamma)))"

text \<open>
  \<open>np.random.choice(range(n), num, p = p)\<close>. Before it draws, numpy checks the
  probabilities and raises ValueError when their sum is not-a-number, when one of them
  is negative, and when the sum differs from 1 by more than the square root of the
  float64 machine epsilon, which is \<open>2 ^ 26\<close> inverted. The drawn indices are all
  below \<open>n\<close>; the random source is the parameter \<open>draw\<close>, whose value at \<open>i\<close> is
  the \<open>i\<close>-th index drawn.
\<close>

definition choice_atol :: real where
  "choice_atol = 1 / 2 ^ 26"

definition np_random_choice ::
  "(nat \<Rightarrow> nat) \<Rightarrow> nat \<Rightarrow> nat \<Rightarrow> npfloat list \<Rightarrow> pf_error + nat list" where
  "np_random_choice draw n num p =
     (let p_sum = np_sum p in
      if n = 0 \<and> num \<noteq> 0 then Inl ValueError
      else if length p \<noteq> n then Inl ValueError
      else if isnan p_sum then Inl ValueError
      else if list_ex (\<lambda>v. flt v (Fin 0)) p then Inl ValueError
      else if flt (Fin choice_atol) (fabs (fsub p_sum (Fin 1))) then Inl ValueError
      else Inr (map draw [0..<num]))"

text \<open>
  \<open>resample_particles\<close>. The heading noise is the second random source:
  \<open>uniform i\<close> is the value \<open>np.random.uniform(-\<pi>/4, \<pi>/4)\<close> returns in the
  \<open>i\<close>-th round of the loop. The loop writes into the population it reads from, so a
  donor replaced in an earlier round is read as replaced.
\<close>

definition resample_step :: "(nat \<Rightarrow> real) \<Rightarrow> particle list \<Rightarrow> nat \<times> nat \<times> nat \<Rightarrow> particle list" where
  "resample_step uniform cloud step =
     (case step of (i, i_replace, i_new) \<Rightarrow>
        cloud[i_replace := (cloud ! i_replace)
          \<lparr>x := x (cloud ! i_new),
           y := y (cloud ! i_new),
           theta := theta (cloud ! i_new) + uniform i\<rparr>])"

definition particles_to_replace :: "npfloat list \<Rightarrow> npfloat \<Rightarrow> nat list" where
  "particles_to_replace weights weights_to_replace =
     filter (\<lambda>i. fle (weights ! i) weights_to_replace) [0..<length weights]"

definition resample_particles ::
  "(nat \<Rightarrow> nat) \<Rightarrow> (nat \<Rightarrow> real) \<Rightarrow> particle list \<Rightarrow> pf_error + particle list" where
  "resample_particles draw uniform cloud =
     (let weights = map w cloud in
      case np_percentile weights 20 of
        Inl e \<Rightarrow> Inl e
      | Inr weights_to_replace \<Rightarrow>
          (let i_particles_to_replace = particles_to_replace weights weights_to_replace;
               num_replace = length i_particles_to_replace
           in case np_random_choice draw (length weights) num_replace weights of
                Inl e \<Rightarrow> Inl e
              | Inr i_new_locations \<Rightarrow>
                  Inr (foldl (resample_step uniform) cloud
                         (zip [0..<num_replace] (zip i_particles_to_replace i_new_locations)))))"

section \<open>The update cycle\<close>

text \<open>
  \<open>run_loop\<close> from the point where the scan and its matching odometry pose are
  known. The arms of its conditional are named by \<open>cycle_branch\<close>. An exception
  ends the thread that runs the loop, so the state after it is not modelled.
\<close>

definition run_pipeline ::
  "(real \<Rightarrow> real \<Rightarrow> real \<Rightarrow> quaternion) \<Rightarrow> (real \<Rightarrow> real \<Rightarrow> npfloat) \<Rightarrow> (nat \<Rightarrow> nat) \<Rightarrow> (nat \<Rightarrow> real)
     \<Rightarrow> pf_state \<Rightarrow> npfloat list \<Rightarrow> real list \<Rightarrow> pf_error + pf_state" where
  "run_pipeline quaternion_from_euler occ draw uniform s r bearings =
     (case update_particles_with_odom s of
        Inl e \<Rightarrow> Inl e
      | Inr s1 \<Rightarrow>
     (case update_particles_with_laser occ (particle_cloud s1) r bearings of
        Inl e \<Rightarrow> Inl e
      | Inr c2 \<Rightarrow>
     (case update_robot_pose quaternion_from_euler (s1\<lparr>particle_cloud := c2\<rparr>) of
        Inl e \<Rightarrow> Inl e
      | Inr s3 \<Rightarrow>
     (case resample_particles draw uniform (particle_cloud s3) of
        Inl e \<Rightarrow> Inl e
      | Inr c4 \<Rightarrow> Inr (s3\<lparr>particle_cloud := c4\<rparr>)))))"

datatype cycle_branch = Record_Reference | Seed_Cloud | Full_Update | No_Update

definition run_loop_branch :: "pf_state \<Rightarrow> xy_theta \<Rightarrow> pf_error + cycle_branch" where
  "run_loop_branch s new_odom_xy_theta =
     (if current_odom_xy_theta s = None then Inr Record_Reference
      else if particle_cloud s = [] then Inr Seed_Cloud
      else case moved_far_enough_to_update s new_odom_xy_theta of
             Inl e \<Rightarrow> Inl e
           | Inr moved \<Rightarrow> Inr (if moved then Full_Update else No_Update))"

definition run_loop ::
  "(real \<Rightarrow> real \<Rightarrow> real \<Rightarrow> quaternion) \<Rightarrow> (real \<Rightarrow> real \<Rightarrow> npfloat) \<Rightarrow> (nat \<Rightarrow> nat) \<Rightarrow> (nat \<Rightarrow> real)
     \<Rightarrow> pf_state \<Rightarrow> xy_theta \<Rightarrow> npfloat list \<Rightarrow> real list \<Rightarrow> pf_error + pf_state" where
  "run_loop quaternion_from_euler occ draw uniform s new_pose r bearings =
     (let s0 = s\<lparr>odom_pose := Some new_pose\<rparr> in
      case run_loop_branch s0 new_pose of
        Inl e \<Rightarrow> Inl e
      | Inr Record_Reference \<Rightarrow> Inr (s0\<lparr>current_odom_xy_theta := Some new_pose\<rparr>)
      | Inr Seed_Cloud \<Rightarrow> initialize_particle_cloud quaternion_from_euler s0 None
      | Inr Full_Update \<Rightarrow> run_pipeline quaternion_from_euler occ draw uniform s0 r bearings
      | Inr No_Update \<Rightarrow> Inr s0)"

section \<open>Auxiliary notions for the proofs\<close>

text \<open>The values an absolute error and a ratio of absolute errors can take.\<close>

fun nonneg_np :: "npfloat \<Rightarrow> bool" where
  "nonneg_np (Fin a) = (0 \<le> a)"
| "nonneg_np PInf = True"
| "nonneg_np NInf = False"
| "nonneg_np NaN = True"

text \<open>The identity transform.\<close>

definition identity3 :: mat3 where
  "identity3 = ((1, 0, 0), (0, 1, 0), (0, 0, 1))"

section \<open>Example inputs\<close>

text \<open>Concrete maps, populations and states on which the theorems below are instantiated.\<close>

definition scenario_occ :: "real \<Rightarrow> real \<Rightarrow> npfloat" where
  "scenario_occ a b = (if a = 0 then Fin 2 else Fin 3)"

definition scenario_cloud :: "particle list" where
  "scenario_cloud = [Particle 0 0 0, Particle 1 0 0]"

definition unknown_occ :: "real \<Rightarrow> real \<Rightarrow> npfloat" where
  "unknown_occ a b = (if a = 0 then Fin 2 else if a = 1 then NaN else Fin 3)"

definition unknown_cloud :: "particle list" where
  "unknown_cloud = [Particle 0 0 0, Particle 1 0 0, Particle 2 0 0]"

definition late_zero_occ :: "real \<Rightarrow> real \<Rightarrow> npfloat" where
  "late_zero_occ a b = (if a = 0 then Fin 3 else if a = 1 then Fin 2 else Fin 4)"

definition yaw_quaternion :: "real \<Rightarrow> real \<Rightarrow> real \<Rightarrow> quaternion" where
  "yaw_quaternion roll pitch yaw = (0, 0, sin (yaw / 2), cos (yaw / 2))"

definition tie_state :: pf_state where
  "tie_state = init_state\<lparr>particle_cloud :=
     [\<lparr>x = 0, y = 0, theta = 0, w = Fin (1 / 4)\<rparr>,
      \<lparr>x = 1, y = 2, theta = 3, w = Fin (1 / 2)\<rparr>,
      \<lparr>x = 4, y = 5, theta = 6, w = Fin (1 / 2)\<rparr>]\<rparr>"

definition full_turn_state :: pf_state where
  "full_turn_state = init_state
     \<lparr>particle_cloud := [Particle 0 0 (2 * pi), Particle 1 2 (pi / 2)],
      current_odom_xy_theta := Some (3, 4, 1),
      odom_pose := Some (3, 4, 1)\<rparr>"

definition tracking_state :: pf_state where
  "tracking_state = init_state
     \<lparr>particle_cloud := [Particle 0 0 0],
      current_odom_xy_theta := Some (1, 1, 0)\<rparr>"

definition quarter_cloud :: "particle list" where
  "quarter_cloud =
     [\<lparr>x = 0, y = 0, theta = 0, w = Fin (1 / 4)\<rparr>,
      \<lparr>x = 1, y = 2, theta = 3, w = Fin (3 / 4)\<rparr>]"

definition zero_cloud :: "particle list" where
  "zero_cloud =
     [\<lparr>x = 0, y = 0, theta = 0, w = Fin 0\<rparr>, \<lparr>x = 1, y = 0, theta = 0, w = Fin 0\<rparr>]"

definition pipeline_state :: pf_state where
  "pipeline_state = init_state
     \<lparr>particle_cloud := unknown_cloud,
      current_odom_xy_theta := Some (0, 0, 0),
      odom_pose := Some (0, 0, 0)\<rparr>"

definition pipeline_result :: pf_state where
  "pipeline_result = pipeline_state
     \<lparr>particle_cloud :=
        [\<lparr>x = 0, y = 0, theta = 0, w = Fin (10 / 21)\<rparr>,
         \<lparr>x = 0, y = 0, theta = 1 / 4, w = Fin (1 / 21)\<rparr>,
         \<lparr>x = 2, y = 0, theta = 0, w = Fin (10 / 21)\<rparr>],
      robot_pose := Some \<lparr>position = (0, 0, 0), orientation = (0, 0, 0, 1)\<rparr>\<rparr>"

section \<open>Properties of the measurement update\<close>

lemma length_laser_errors: "length (laser_errors ds rd) = length ds"
  by (simp add: laser_errors_def)

lemma nth_laser_errors:
  "i < length ds \<Longrightarrow>
   laser_errors ds rd ! i =
     (if isnan (fabs (fsub (ds ! i) rd)) then Fin 5 else fabs (fsub (ds ! i) rd))"
  by (simp add: laser_errors_def)

lemma isnan_iff: "isnan v \<longleftrightarrow> v = NaN"
  by (cases v) simp_all

lemma fabs_fsub_nan_left: "fabs (fsub NaN rd) = NaN"
  by (simp add: fsub_def)

lemma error_ratio_nonempty:
  "errors \<noteq> [] \<Longrightarrow> error_ratio errors = Inr (map (\<lambda>e. fdiv (errors ! 0) e) errors)"
  by (cases errors) (simp_all add: error_ratio_def)

lemma length_assign_weights:
  "length ws = length cloud \<Longrightarrow> length (assign_weights cloud ws) = length cloud"
  by (simp add: assign_weights_def)

lemma nth_assign_weights:
  "length ws = length cloud \<Longrightarrow> i < length cloud \<Longrightarrow>
   assign_weights cloud ws ! i =
     (cloud ! i)\<lparr>w := (if isnan (ws ! i) then Fin 0 else ws ! i)\<rparr>"
  by (simp add: assign_weights_def)

lemma np_min_nonempty: "r \<noteq> [] \<Longrightarrow> \<exists>rd. np_min r = Inr rd"
  by (cases r) (simp_all add: np_min_def)

lemma update_particles_with_laser_eq:
  assumes "np_min r = Inr rd" "cloud \<noteq> []"
  shows "update_particles_with_laser occ cloud r bs =
     Inr (assign_weights cloud (laser_weights
        (map (\<lambda>e. fdiv (laser_errors (particle_distances occ cloud) rd ! 0) e)
             (laser_errors (particle_distances occ cloud) rd))))"
proof -
  have "laser_errors (particle_distances occ cloud) rd \<noteq> []"
    using assms(2) length_laser_errors[of "particle_distances occ cloud" rd]
    by (auto simp: particle_distances_def)
  then show ?thesis
    using assms(1) by (simp add: update_particles_with_laser_def error_ratio_nonempty)
qed



lemma fadd_NaN_right [simp]: "fadd a NaN = NaN"
  by (cases a) simp_all

lemma fdiv_NaN_right [simp]: "fdiv a NaN = NaN"
  by (cases a) simp_all

lemma foldl_fadd_NaN: "foldl fadd NaN xs = NaN"
  by (induction xs) simp_all

lemma np_sum_has_NaN: "NaN \<in> set xs \<Longrightarrow> foldl fadd a xs = NaN"
proof (induction xs arbitrary: a)
  case Nil then show ?case by simp
next
  case (Cons v vs)
  show ?case
  proof (cases "v = NaN")
    case True then show ?thesis by (simp add: foldl_fadd_NaN)
  next
    case False with Cons show ?thesis by simp
  qed
qed

lemma foldl_fadd_PInf:
  "\<forall>v\<in>set xs. nonneg_np v \<Longrightarrow> foldl fadd PInf xs = PInf \<or> foldl fadd PInf xs = NaN"
proof (induction xs)
  case Nil then show ?case by simp
next
  case (Cons v vs)
  then show ?case by (cases v) (simp_all add: foldl_fadd_NaN)
qed

lemma np_sum_has_PInf:
  "PInf \<in> set xs \<Longrightarrow> \<forall>v\<in>set xs. nonneg_np v \<Longrightarrow> nonneg_np a \<Longrightarrow>
   foldl fadd a xs = PInf \<or> foldl fadd a xs = NaN"
proof (induction xs arbitrary: a)
  case Nil then show ?case by simp
next
  case (Cons v vs)
  show ?case
  proof (cases "v = PInf")
    case True
    with Cons.prems show ?thesis
      by (cases a) (auto simp: foldl_fadd_NaN dest: foldl_fadd_PInf)
  next
    case False
    have "nonneg_np (fadd a v)" using Cons.prems by (cases a; cases v) auto
    with False Cons show ?thesis by auto
  qed
qed


lemma nonneg_laser_errors:
  "e \<in> set (laser_errors ds rd) \<Longrightarrow> nonneg_np e \<and> e \<noteq> NaN"
proof -
  have "nonneg_np (fabs v)" for v by (cases v) simp_all
  then show "e \<in> set (laser_errors ds rd) \<Longrightarrow> nonneg_np e \<and> e \<noteq> NaN"
    by (auto simp: laser_errors_def isnan_iff)
qed

lemma nonneg_fdiv: "nonneg_np a \<Longrightarrow> nonneg_np b \<Longrightarrow> nonneg_np (fdiv a b)"
  by (cases a; cases b) auto

lemma fdiv_by_inf_or_nan:
  "nonneg_np q \<Longrightarrow> s = PInf \<or> s = NaN \<Longrightarrow> fdiv q s = Fin 0 \<or> fdiv q s = NaN"
  by (cases q) auto

lemma fdiv_zero_zero: "fdiv (Fin 0) (Fin 0) = NaN"
  by simp

lemma fdiv_pos_zero: "nonneg_np a \<Longrightarrow> a \<noteq> NaN \<Longrightarrow> a \<noteq> Fin 0 \<Longrightarrow> fdiv a (Fin 0) = PInf"
  by (cases a) auto

lemma ratio_sum_degenerate:
  assumes nn: "\<forall>e\<in>set errors. nonneg_np e \<and> e \<noteq> NaN"
    and i: "i < length errors" and z: "errors ! i = Fin 0"
  shows "(errors ! 0 = Fin 0 \<longrightarrow> np_sum (map (\<lambda>e. fdiv (errors ! 0) e) errors) = NaN) \<and>
         (np_sum (map (\<lambda>e. fdiv (errors ! 0) e) errors) = PInf \<or>
          np_sum (map (\<lambda>e. fdiv (errors ! 0) e) errors) = NaN)"
proof -
  let ?ratio = "map (\<lambda>e. fdiv (errors ! 0) e) errors"
  have ne: "errors \<noteq> []" using i by auto
  then have e0: "errors ! 0 \<in> set errors" by (simp add: nth_mem)
  have zin: "Fin 0 \<in> set errors" using i z by (metis nth_mem)
  have cls: "\<forall>v\<in>set ?ratio. nonneg_np v"
    using nn e0 by (auto intro: nonneg_fdiv)
  show ?thesis
  proof (cases "errors ! 0 = Fin 0")
    case True
    then have "NaN \<in> set ?ratio" using zin by force
    then have "np_sum ?ratio = NaN" unfolding np_sum_def by (rule np_sum_has_NaN)
    then show ?thesis by blast
  next
    case False
    then have "fdiv (errors ! 0) (Fin 0) = PInf"
      using nn e0 by (simp add: fdiv_pos_zero)
    then have "PInf \<in> set ?ratio" using zin by force
    then have "np_sum ?ratio = PInf \<or> np_sum ?ratio = NaN"
      unfolding np_sum_def using cls by (intro np_sum_has_PInf) simp_all
    then show ?thesis using False by blast
  qed
qed


lemma length_ratio_weights:
  "length (laser_weights (map f errors)) = length errors"
  by (simp add: laser_weights_def)

lemma nth_laser_weights:
  "i < length ratio \<Longrightarrow> laser_weights ratio ! i = fdiv (ratio ! i) (np_sum ratio)"
  by (simp add: laser_weights_def)

text \<open>
  C1. In the measurement update, with \<open>rd\<close> the minimum of the scan, particle \<open>i\<close>
  gets the weight \<open>ratio_i / sum(ratio)\<close>, where \<open>ratio_i = error_0 / error_i\<close> and
  \<open>error_i\<close> is the absolute difference between the distance the map predicts for the
  particle and \<open>rd\<close>. An absolute difference that is not-a-number, which is what an
  unknown predicted distance gives, counts as the error 5: the particle is not skipped.
  The stored weight is the computed one, or 0 when the computed one is not-a-number.
\<close>

theorem laser_weight_formula:
  assumes rd: "np_min r = Inr rd" and i: "i < length cloud"
  shows "\<exists>errors ratio weights cloud'.
           errors = laser_errors (particle_distances occ cloud) rd \<and>
           error_ratio errors = Inr ratio \<and>
           weights = laser_weights ratio \<and>
           update_particles_with_laser occ cloud r bearings = Inr cloud' \<and>
           errors ! i =
             (if isnan (fabs (fsub (occ (x (cloud ! i)) (y (cloud ! i))) rd)) then Fin 5
              else fabs (fsub (occ (x (cloud ! i)) (y (cloud ! i))) rd)) \<and>
           (isnan (occ (x (cloud ! i)) (y (cloud ! i))) \<longrightarrow> errors ! i = Fin 5) \<and>
           ratio ! i = fdiv (errors ! 0) (errors ! i) \<and>
           weights ! i = fdiv (ratio ! i) (np_sum ratio) \<and>
           w (cloud' ! i) = (if isnan (weights ! i) then Fin 0 else weights ! i)"
proof -
  let ?ds = "particle_distances occ cloud"
  let ?errors = "laser_errors ?ds rd"
  let ?ratio = "map (\<lambda>e. fdiv (?errors ! 0) e) ?errors"
  let ?weights = "laser_weights ?ratio"
  have ne: "cloud \<noteq> []" using i by auto
  have len: "length ?ds = length cloud" by (simp add: particle_distances_def)
  have lene: "length ?errors = length cloud" by (simp add: length_laser_errors len)
  have di: "?ds ! i = occ (x (cloud ! i)) (y (cloud ! i))"
    using i by (simp add: particle_distances_def)
  have ei: "?errors ! i =
      (if isnan (fabs (fsub (occ (x (cloud ! i)) (y (cloud ! i))) rd)) then Fin 5
       else fabs (fsub (occ (x (cloud ! i)) (y (cloud ! i))) rd))"
    using i len nth_laser_errors[of i ?ds rd] by (simp add: di)
  have nan5: "isnan (occ (x (cloud ! i)) (y (cloud ! i))) \<longrightarrow> ?errors ! i = Fin 5"
    unfolding ei by (auto simp: isnan_iff fabs_fsub_nan_left)
  have er: "error_ratio ?errors = Inr ?ratio"
    using lene ne by (intro error_ratio_nonempty) auto
  have ri: "?ratio ! i = fdiv (?errors ! 0) (?errors ! i)"
    using i lene by simp
  have wi: "?weights ! i = fdiv (?ratio ! i) (np_sum ?ratio)"
    using i lene by (intro nth_laser_weights) simp
  have up: "update_particles_with_laser occ cloud r bearings = Inr (assign_weights cloud ?weights)"
    using rd ne by (rule update_particles_with_laser_eq)
  have lw: "length ?weights = length cloud"
    using lene by (simp add: laser_weights_def)
  have st: "w (assign_weights cloud ?weights ! i) = (if isnan (?weights ! i) then Fin 0 else ?weights ! i)"
    using nth_assign_weights[OF lw i] by simp
  show ?thesis
    using ei nan5 er ri wi up st by blast
qed

text \<open>
  C2. For a non-empty scan and a non-empty population the measurement update returns,
  and afterwards no particle carries a not-a-number weight: a particle whose computed
  weight is not-a-number has weight exactly 0, every other particle has its computed
  weight.
\<close>

theorem laser_update_no_nan:
  assumes r: "r \<noteq> []" and c: "cloud \<noteq> []"
  shows "\<exists>rd ratio cloud'.
           np_min r = Inr rd \<and>
           error_ratio (laser_errors (particle_distances occ cloud) rd) = Inr ratio \<and>
           update_particles_with_laser occ cloud r bearings = Inr cloud' \<and>
           length cloud' = length cloud \<and>
           (\<forall>i<length cloud.
              \<not> isnan (w (cloud' ! i)) \<and>
              (isnan (laser_weights ratio ! i) \<longrightarrow> w (cloud' ! i) = Fin 0) \<and>
              (\<not> isnan (laser_weights ratio ! i) \<longrightarrow> w (cloud' ! i) = laser_weights ratio ! i))"
proof -
  obtain rd where rd: "np_min r = Inr rd" using np_min_nonempty[OF r] by blast
  let ?errors = "laser_errors (particle_distances occ cloud) rd"
  let ?ratio = "map (\<lambda>e. fdiv (?errors ! 0) e) ?errors"
  let ?weights = "laser_weights ?ratio"
  have lene: "length ?errors = length cloud"
    by (simp add: length_laser_errors particle_distances_def)
  have er: "error_ratio ?errors = Inr ?ratio"
    using lene c by (intro error_ratio_nonempty) auto
  have up: "update_particles_with_laser occ cloud r bearings = Inr (assign_weights cloud ?weights)"
    using rd c by (rule update_particles_with_laser_eq)
  have lw: "length ?weights = length cloud"
    using lene by (simp add: laser_weights_def)
  have each: "\<not> isnan (w (assign_weights cloud ?weights ! i)) \<and>
      (isnan (?weights ! i) \<longrightarrow> w (assign_weights cloud ?weights ! i) = Fin 0) \<and>
      (\<not> isnan (?weights ! i) \<longrightarrow> w (assign_weights cloud ?weights ! i) = ?weights ! i)"
    if "i < length cloud" for i
    using nth_assign_weights[OF lw that] by simp
  have "length (assign_weights cloud ?weights) = length cloud"
    using lw by (rule length_assign_weights)
  with rd er up each show ?thesis by blast
qed

text \<open>
  C10, as amended. When the error of some particle \<open>i\<close> is exactly 0, every particle has
  weight exactly 0 after the measurement update. If the zero is at the anchor index 0,
  the anchor's own ratio is not-a-number and so is the sum of the ratios, hence every
  computed weight. If the anchor's error is not zero, the ratio of particle \<open>i\<close> is
  infinite and the sum of the ratios is infinite or not-a-number. Either way every
  computed weight is 0 or not-a-number, and the latter is stored as 0.
\<close>

theorem laser_zero_error_all_zero:
  assumes rd: "np_min r = Inr rd" and i: "i < length cloud"
    and z: "laser_errors (particle_distances occ cloud) rd ! i = Fin 0"
  shows "\<exists>errors ratio cloud'.
           errors = laser_errors (particle_distances occ cloud) rd \<and>
           error_ratio errors = Inr ratio \<and>
           update_particles_with_laser occ cloud r bearings = Inr cloud' \<and>
           length cloud' = length cloud \<and>
           (\<forall>p\<in>set cloud'. w p = Fin 0) \<and>
           (errors ! 0 = Fin 0 \<longrightarrow> ratio ! 0 = NaN \<and> np_sum ratio = NaN) \<and>
           (errors ! 0 \<noteq> Fin 0 \<longrightarrow> ratio ! i = PInf \<and> (np_sum ratio = PInf \<or> np_sum ratio = NaN)) \<and>
           (\<forall>j<length cloud. laser_weights ratio ! j = Fin 0 \<or> laser_weights ratio ! j = NaN)"
proof -
  let ?errors = "laser_errors (particle_distances occ cloud) rd"
  let ?ratio = "map (\<lambda>e. fdiv (?errors ! 0) e) ?errors"
  let ?weights = "laser_weights ?ratio"
  have ne: "cloud \<noteq> []" using i by auto
  have lene: "length ?errors = length cloud"
    by (simp add: length_laser_errors particle_distances_def)
  have nn: "\<forall>e\<in>set ?errors. nonneg_np e \<and> e \<noteq> NaN"
    using nonneg_laser_errors by blast
  have e0: "?errors ! 0 \<in> set ?errors" using ne lene by (intro nth_mem) simp
  have er: "error_ratio ?errors = Inr ?ratio"
    using lene ne by (intro error_ratio_nonempty) auto
  have up: "update_particles_with_laser occ cloud r bearings = Inr (assign_weights cloud ?weights)"
    using rd ne by (rule update_particles_with_laser_eq)
  have lw: "length ?weights = length cloud"
    using lene by (simp add: laser_weights_def)
  have la: "length (assign_weights cloud ?weights) = length cloud"
    using lw by (rule length_assign_weights)
  have deg: "(?errors ! 0 = Fin 0 \<longrightarrow> np_sum ?ratio = NaN) \<and>
             (np_sum ?ratio = PInf \<or> np_sum ?ratio = NaN)"
    using nn i z lene by (intro ratio_sum_degenerate) simp_all
  have r0: "?errors ! 0 = Fin 0 \<longrightarrow> ?ratio ! 0 = NaN"
    using ne lene by (auto simp: nth_map)
  have ri: "?errors ! 0 \<noteq> Fin 0 \<longrightarrow> ?ratio ! i = PInf"
    using i lene z nn e0 by (auto simp: fdiv_pos_zero)
  have wj: "?weights ! j = Fin 0 \<or> ?weights ! j = NaN" if j: "j < length cloud" for j
  proof -
    have "?errors ! j \<in> set ?errors" using j lene by (intro nth_mem) simp
    then have "nonneg_np (?ratio ! j)"
      using nn e0 j lene by (simp add: nonneg_fdiv)
    moreover have "?weights ! j = fdiv (?ratio ! j) (np_sum ?ratio)"
      using j lene by (intro nth_laser_weights) simp
    ultimately show ?thesis using deg fdiv_by_inf_or_nan by metis
  qed
  have allz: "\<forall>p\<in>set (assign_weights cloud ?weights). w p = Fin 0"
  proof
    fix p assume "p \<in> set (assign_weights cloud ?weights)"
    then obtain j where j: "j < length cloud" and p: "p = assign_weights cloud ?weights ! j"
      using la by (metis in_set_conv_nth)
    show "w p = Fin 0"
      using wj[OF j] nth_assign_weights[OF lw j] p by auto
  qed
  show ?thesis
    using er up la allz deg r0 ri wj by blast
qed

section \<open>Properties of the pose estimate\<close>

lemma fle_refl: "\<not> isnan a \<Longrightarrow> fle a a"
  by (cases a) simp_all

lemma fle_trans: "fle a b \<Longrightarrow> fle b c \<Longrightarrow> fle a c"
  by (cases a; cases b; cases c) simp_all

lemma fle_total: "\<not> isnan a \<Longrightarrow> \<not> isnan b \<Longrightarrow> fle a b \<or> fle b a"
  by (cases a; cases b) auto

lemma fle_antisym: "fle a b \<Longrightarrow> fle b a \<Longrightarrow> a = b"
  by (cases a; cases b) simp_all

lemma not_fle_flt: "\<not> isnan a \<Longrightarrow> \<not> isnan b \<Longrightarrow> \<not> fle a b \<Longrightarrow> flt b a"
  unfolding flt_def using fle_total fle_antisym by blast

lemma fle_flt_trans: "fle a b \<Longrightarrow> flt b c \<Longrightarrow> flt a c"
  unfolding flt_def using fle_trans fle_antisym by blast

lemma argmax_scan_range:
  "mi < i \<Longrightarrow> argmax_scan vs i mi mp < i + length vs"
  by (induction vs i mi mp rule: argmax_scan.induct) auto

lemma argmax_scan_first_max:
  assumes "drop i xs = vs" "mi < i" "i \<le> length xs" "xs ! mi = mp"
    and "\<forall>v\<in>set xs. \<not> isnan v"
    and "\<forall>j<i. fle (xs ! j) mp" and "\<forall>j<mi. flt (xs ! j) mp"
  shows "(\<forall>j<length xs. fle (xs ! j) (xs ! argmax_scan vs i mi mp)) \<and>
         (\<forall>j<argmax_scan vs i mi mp. flt (xs ! j) (xs ! argmax_scan vs i mi mp))"
  using assms
proof (induction vs i mi mp rule: argmax_scan.induct)
  case (1 i mi mp)
  then have "length xs \<le> i" by simp
  with 1 show ?case by auto
next
  case (2 v vs i mi mp)
  from "2.prems"(1) have il: "i < length xs"
    by (metis drop_eq_Nil2 list.distinct(1) not_le)
  from "2.prems"(1) have xi: "xs ! i = v"
    by (metis il nth_via_drop)
  from "2.prems"(1) have dr: "drop (Suc i) xs = vs"
    by (metis drop_Suc list.sel(3) tl_drop)
  have nn: "\<not> isnan mp" "\<not> isnan v"
    using "2.prems" il xi by (auto simp: nth_mem)
  show ?case
  proof (cases "fle v mp")
    case True
    have a: "\<forall>j<Suc i. fle (xs ! j) mp"
      using "2.prems"(6) True xi by (auto simp: less_Suc_eq)
    have "(\<forall>j<length xs. fle (xs ! j) (xs ! argmax_scan vs (Suc i) mi mp)) \<and>
          (\<forall>j<argmax_scan vs (Suc i) mi mp. flt (xs ! j) (xs ! argmax_scan vs (Suc i) mi mp))"
      using "2.prems" il a dr nn True
      by (intro "2.IH"(2)) auto
    then show ?thesis using nn True by simp
  next
    case False
    then have lt: "flt mp v" using nn not_fle_flt by blast
    have a: "\<forall>j<Suc i. fle (xs ! j) v"
      using "2.prems"(6) lt xi nn fle_refl fle_trans
      by (auto simp: less_Suc_eq flt_def)
    have b: "\<forall>j<i. flt (xs ! j) v"
      using "2.prems"(6) lt fle_flt_trans by blast
    have "(\<forall>j<length xs. fle (xs ! j) (xs ! argmax_scan vs (Suc i) i v)) \<and>
          (\<forall>j<argmax_scan vs (Suc i) i v. flt (xs ! j) (xs ! argmax_scan vs (Suc i) i v))"
      using "2.prems" il a b dr nn False xi
      by (intro "2.IH"(1)) auto
    then show ?thesis using nn False by simp
  qed
qed

lemma np_argmax_nonempty:
  assumes "xs \<noteq> []"
  shows "\<exists>k. np_argmax xs = Inr k \<and> k < length xs \<and>
     ((\<forall>v\<in>set xs. \<not> isnan v) \<longrightarrow>
        (\<forall>j<length xs. fle (xs ! j) (xs ! k)) \<and> (\<forall>j<k. flt (xs ! j) (xs ! k)))"
proof -
  obtain v vs where xs: "xs = v # vs" using assms by (cases xs) auto
  let ?k = "argmax_scan vs 1 0 v"
  have k: "np_argmax xs = Inr ?k" by (simp add: np_argmax_def xs)
  have r: "?k < length xs" using argmax_scan_range[of 0 1 vs v] by (simp add: xs)
  have m: "(\<forall>j<length xs. fle (xs ! j) (xs ! ?k)) \<and> (\<forall>j<?k. flt (xs ! j) (xs ! ?k))"
    if nn: "\<forall>v\<in>set xs. \<not> isnan v"
  proof (rule argmax_scan_first_max)
    show "drop 1 xs = vs" by (simp add: xs)
    show "(0::nat) < 1" by simp
    show "1 \<le> length xs" by (simp add: xs)
    show "xs ! 0 = v" by (simp add: xs)
    show "\<forall>v\<in>set xs. \<not> isnan v" by (rule nn)
    show "\<forall>j<1. fle (xs ! j) v" using nn by (simp add: xs fle_refl)
    show "\<forall>j<0. flt (xs ! j) v" by simp
  qed
  show ?thesis using k r m by blast
qed

text \<open>
  C7. For every non-empty population the pose estimator returns, and the pose it stores
  is the pose of a particle of the population, at an index \<open>k\<close>; the population itself
  is not changed. When no weight is not-a-number, the weight at \<open>k\<close> is maximal and
  every particle before \<open>k\<close> has a strictly smaller weight: a tie goes to the first
  occurrence.
\<close>

theorem update_robot_pose_argmax:
  assumes "particle_cloud s \<noteq> []"
  shows "\<exists>k s'. update_robot_pose qfe s = Inr s' \<and>
           k < length (particle_cloud s) \<and>
           robot_pose s' = Some (as_pose qfe (particle_cloud s ! k)) \<and>
           particle_cloud s ! k \<in> set (particle_cloud s) \<and>
           particle_cloud s' = particle_cloud s \<and>
           ((\<forall>p\<in>set (particle_cloud s). \<not> isnan (w p)) \<longrightarrow>
              (\<forall>j<length (particle_cloud s). fle (w (particle_cloud s ! j)) (w (particle_cloud s ! k))) \<and>
              (\<forall>j<k. flt (w (particle_cloud s ! j)) (w (particle_cloud s ! k))))"
proof -
  let ?ws = "map w (particle_cloud s)"
  have "?ws \<noteq> []" using assms by simp
  from np_argmax_nonempty[OF this] obtain k where
    k: "np_argmax ?ws = Inr k" "k < length ?ws"
    and m: "(\<forall>v\<in>set ?ws. \<not> isnan v) \<longrightarrow>
        (\<forall>j<length ?ws. fle (?ws ! j) (?ws ! k)) \<and> (\<forall>j<k. flt (?ws ! j) (?ws ! k))"
    by blast
  have kl: "k < length (particle_cloud s)" using k(2) by simp
  have up: "update_robot_pose qfe s =
      Inr (s\<lparr>robot_pose := Some (as_pose qfe (particle_cloud s ! k))\<rparr>)"
    using k(1) by (simp add: update_robot_pose_def)
  have m': "(\<forall>p\<in>set (particle_cloud s). \<not> isnan (w p)) \<longrightarrow>
              (\<forall>j<length (particle_cloud s). fle (w (particle_cloud s ! j)) (w (particle_cloud s ! k))) \<and>
              (\<forall>j<k. flt (w (particle_cloud s ! j)) (w (particle_cloud s ! k)))"
    using m kl by auto
  show ?thesis
    using up kl m' by (intro exI[of _ k] exI[of _ "s\<lparr>robot_pose := Some (as_pose qfe (particle_cloud s ! k))\<rparr>"]) simp
qed

section \<open>Instances for the measurement update and the pose estimate\<close>

lemmas laser_eval =
  update_particles_with_laser_def particle_distances_def laser_errors_def error_ratio_def
  laser_weights_def assign_weights_def np_min_def np_minimum_def np_sum_def fsub_def
  Particle_def

lemma scenario_eval:
  "update_particles_with_laser scenario_occ scenario_cloud [Fin 2, Fin 4] [] =
     Inr [\<lparr>x = 0, y = 0, theta = 0, w = Fin 0\<rparr>, \<lparr>x = 1, y = 0, theta = 0, w = Fin 0\<rparr>]"
  by (simp add: laser_eval scenario_occ_def scenario_cloud_def)

lemma unknown_eval:
  "update_particles_with_laser unknown_occ unknown_cloud [Fin 4, Fin (5 / 2)] [] =
     Inr [\<lparr>x = 0, y = 0, theta = 0, w = Fin (10 / 21)\<rparr>,
          \<lparr>x = 1, y = 0, theta = 0, w = Fin (1 / 21)\<rparr>,
          \<lparr>x = 2, y = 0, theta = 0, w = Fin (10 / 21)\<rparr>]"
  by (simp add: laser_eval unknown_occ_def unknown_cloud_def)

lemma late_zero_eval:
  "update_particles_with_laser late_zero_occ unknown_cloud [Fin 2] [] =
     Inr [\<lparr>x = 0, y = 0, theta = 0, w = Fin 0\<rparr>,
          \<lparr>x = 1, y = 0, theta = 0, w = Fin 0\<rparr>,
          \<lparr>x = 2, y = 0, theta = 0, w = Fin 0\<rparr>]"
  by (simp add: laser_eval late_zero_occ_def unknown_cloud_def)

theorem laser_weight_formula_witness:
  "np_min [Fin 4, Fin (5 / 2)] = Inr (Fin (5 / 2)) \<and> 1 < length unknown_cloud \<and>
   (\<exists>errors ratio weights cloud'.
      errors = laser_errors (particle_distances unknown_occ unknown_cloud) (Fin (5 / 2)) \<and>
      error_ratio errors = Inr ratio \<and>
      weights = laser_weights ratio \<and>
      update_particles_with_laser unknown_occ unknown_cloud [Fin 4, Fin (5 / 2)] [] = Inr cloud' \<and>
      errors ! 1 =
        (if isnan (fabs (fsub (unknown_occ (x (unknown_cloud ! 1)) (y (unknown_cloud ! 1))) (Fin (5 / 2))))
         then Fin 5
         else fabs (fsub (unknown_occ (x (unknown_cloud ! 1)) (y (unknown_cloud ! 1))) (Fin (5 / 2)))) \<and>
      (isnan (unknown_occ (x (unknown_cloud ! 1)) (y (unknown_cloud ! 1))) \<longrightarrow> errors ! 1 = Fin 5) \<and>
      ratio ! 1 = fdiv (errors ! 0) (errors ! 1) \<and>
      weights ! 1 = fdiv (ratio ! 1) (np_sum ratio) \<and>
      w (cloud' ! 1) = (if isnan (weights ! 1) then Fin 0 else weights ! 1)) \<and>
   isnan (unknown_occ (x (unknown_cloud ! 1)) (y (unknown_cloud ! 1))) \<and>
   map w (after_call unknown_cloud
       (update_particles_with_laser unknown_occ unknown_cloud [Fin 4, Fin (5 / 2)] [])) =
     [Fin (10 / 21), Fin (1 / 21), Fin (10 / 21)]"
proof -
  have rd: "np_min [Fin 4, Fin (5 / 2)] = Inr (Fin (5 / 2))"
    by (simp add: np_min_def np_minimum_def)
  have i: "1 < length unknown_cloud" by (simp add: unknown_cloud_def)
  have n: "isnan (unknown_occ (x (unknown_cloud ! 1)) (y (unknown_cloud ! 1)))"
    by (simp add: unknown_cloud_def unknown_occ_def Particle_def)
  have e: "map w (after_call unknown_cloud
       (update_particles_with_laser unknown_occ unknown_cloud [Fin 4, Fin (5 / 2)] [])) =
     [Fin (10 / 21), Fin (1 / 21), Fin (10 / 21)]"
    by (simp add: unknown_eval after_call_def)
  show ?thesis
    by (intro conjI rd i n e laser_weight_formula[OF rd i])
qed

theorem laser_update_no_nan_witness:
  "[Fin 2, Fin 4] \<noteq> [] \<and> scenario_cloud \<noteq> [] \<and>
   (\<exists>rd ratio cloud'.
      np_min [Fin 2, Fin 4] = Inr rd \<and>
      error_ratio (laser_errors (particle_distances scenario_occ scenario_cloud) rd) = Inr ratio \<and>
      update_particles_with_laser scenario_occ scenario_cloud [Fin 2, Fin 4] [] = Inr cloud' \<and>
      length cloud' = length scenario_cloud \<and>
      (\<forall>i<length scenario_cloud.
         \<not> isnan (w (cloud' ! i)) \<and>
         (isnan (laser_weights ratio ! i) \<longrightarrow> w (cloud' ! i) = Fin 0) \<and>
         (\<not> isnan (laser_weights ratio ! i) \<longrightarrow> w (cloud' ! i) = laser_weights ratio ! i))) \<and>
   map w (after_call scenario_cloud
       (update_particles_with_laser scenario_occ scenario_cloud [Fin 2, Fin 4] [])) = [Fin 0, Fin 0]"
proof -
  have r: "[Fin 2, Fin 4] \<noteq> []" by simp
  have c: "scenario_cloud \<noteq> []" by (simp add: scenario_cloud_def)
  have e: "map w (after_call scenario_cloud
       (update_particles_with_laser scenario_occ scenario_cloud [Fin 2, Fin 4] [])) = [Fin 0, Fin 0]"
    by (simp add: scenario_eval after_call_def)
  show ?thesis
    by (intro conjI r c e laser_update_no_nan[OF r c])
qed

theorem laser_zero_error_all_zero_witness:
  "np_min [Fin 2] = Inr (Fin 2) \<and> 1 < length unknown_cloud \<and>
   laser_errors (particle_distances late_zero_occ unknown_cloud) (Fin 2) ! 1 = Fin 0 \<and>
   (\<exists>errors ratio cloud'.
      errors = laser_errors (particle_distances late_zero_occ unknown_cloud) (Fin 2) \<and>
      error_ratio errors = Inr ratio \<and>
      update_particles_with_laser late_zero_occ unknown_cloud [Fin 2] [] = Inr cloud' \<and>
      length cloud' = length unknown_cloud \<and>
      (\<forall>p\<in>set cloud'. w p = Fin 0) \<and>
      (errors ! 0 = Fin 0 \<longrightarrow> ratio ! 0 = NaN \<and> np_sum ratio = NaN) \<and>
      (errors ! 0 \<noteq> Fin 0 \<longrightarrow> ratio ! 1 = PInf \<and> (np_sum ratio = PInf \<or> np_sum ratio = NaN)) \<and>
      (\<forall>j<length unknown_cloud. laser_weights ratio ! j = Fin 0 \<or> laser_weights ratio ! j = NaN)) \<and>
   map w (after_call unknown_cloud
       (update_particles_with_laser late_zero_occ unknown_cloud [Fin 2] [])) = [Fin 0, Fin 0, Fin 0]"
proof -
  have rd: "np_min [Fin 2] = Inr (Fin 2)" by (simp add: np_min_def)
  have i: "1 < length unknown_cloud" by (simp add: unknown_cloud_def)
  have z: "laser_errors (particle_distances late_zero_occ unknown_cloud) (Fin 2) ! 1 = Fin 0"
    by (simp add: laser_errors_def particle_distances_def late_zero_occ_def unknown_cloud_def
        Particle_def fsub_def)
  have e: "map w (after_call unknown_cloud
       (update_particles_with_laser late_zero_occ unknown_cloud [Fin 2] [])) = [Fin 0, Fin 0, Fin 0]"
    by (simp add: late_zero_eval after_call_def)
  show ?thesis
    by (intro conjI rd i z e laser_zero_error_all_zero[OF rd i z])
qed

text \<open>
  C10 as stated says that a zero error at the anchor index makes all ratios
  not-a-number. With predicted distances 2 and 3 and the observed range 2 the errors are
  0 and 1, the anchor's error is zero, and the ratio of the second particle is 0.
\<close>

theorem laser_ratios_not_all_nan:
  "laser_errors (particle_distances scenario_occ scenario_cloud) (Fin 2) ! 0 = Fin 0 \<and>
   error_ratio (laser_errors (particle_distances scenario_occ scenario_cloud) (Fin 2)) =
     Inr [NaN, Fin 0] \<and>
   \<not> isnan ([NaN, Fin 0] ! 1)"
  by (simp add: laser_errors_def particle_distances_def scenario_occ_def scenario_cloud_def
      Particle_def fsub_def error_ratio_def)

lemma tie_eval:
  "update_robot_pose yaw_quaternion tie_state =
     Inr (tie_state\<lparr>robot_pose := Some \<lparr>position = (1, 2, 0), orientation = (0, 0, sin (3 / 2), cos (3 / 2))\<rparr>\<rparr>)"
  by (simp add: update_robot_pose_def tie_state_def init_state_def np_argmax_def as_pose_def
      yaw_quaternion_def)

theorem update_robot_pose_argmax_witness:
  "particle_cloud tie_state \<noteq> [] \<and>
   list_all (\<lambda>p. \<not> isnan (w p)) (particle_cloud tie_state) \<and>
   (\<exists>k s'. update_robot_pose yaw_quaternion tie_state = Inr s' \<and>
           k < length (particle_cloud tie_state) \<and>
           robot_pose s' = Some (as_pose yaw_quaternion (particle_cloud tie_state ! k)) \<and>
           particle_cloud tie_state ! k \<in> set (particle_cloud tie_state) \<and>
           particle_cloud s' = particle_cloud tie_state \<and>
           (\<forall>j<length (particle_cloud tie_state).
              fle (w (particle_cloud tie_state ! j)) (w (particle_cloud tie_state ! k))) \<and>
           (\<forall>j<k. flt (w (particle_cloud tie_state ! j)) (w (particle_cloud tie_state ! k)))) \<and>
   update_robot_pose yaw_quaternion tie_state =
     Inr (tie_state\<lparr>robot_pose := Some (as_pose yaw_quaternion (particle_cloud tie_state ! 1))\<rparr>)"
proof -
  have c: "particle_cloud tie_state \<noteq> []" by (simp add: tie_state_def)
  have n: "list_all (\<lambda>p. \<not> isnan (w p)) (particle_cloud tie_state)" by (simp add: tie_state_def)
  then have n': "\<forall>p\<in>set (particle_cloud tie_state). \<not> isnan (w p)" by (simp add: list_all_iff)
  have e: "update_robot_pose yaw_quaternion tie_state =
     Inr (tie_state\<lparr>robot_pose := Some (as_pose yaw_quaternion (particle_cloud tie_state ! 1))\<rparr>)"
    by (simp add: tie_eval) (simp add: tie_state_def as_pose_def yaw_quaternion_def)
  have t: "\<exists>k s'. update_robot_pose yaw_quaternion tie_state = Inr s' \<and>
           k < length (particle_cloud tie_state) \<and>
           robot_pose s' = Some (as_pose yaw_quaternion (particle_cloud tie_state ! k)) \<and>
           particle_cloud tie_state ! k \<in> set (particle_cloud tie_state) \<and>
           particle_cloud s' = particle_cloud tie_state \<and>
           (\<forall>j<length (particle_cloud tie_state).
              fle (w (particle_cloud tie_state ! j)) (w (particle_cloud tie_state ! k))) \<and>
           (\<forall>j<k. flt (w (particle_cloud tie_state ! j)) (w (particle_cloud tie_state ! k)))"
    using update_robot_pose_argmax[OF c, of yaw_quaternion] n' by blast
  show ?thesis
    by (intro conjI c n e t)
qed

section \<open>Properties of the motion update\<close>

lemma det3_create_pose: "det3 (create_pose v) = 1"
  by (cases v) (simp add: det3_def create_pose_def)

lemma inv_create_pose:
  "\<exists>iv. np_linalg_inv (create_pose v) = Inr iv \<and> matmul iv (create_pose v) = identity3"
proof -
  obtain a b t where v: "v = (a, b, t)" by (cases v) auto
  have d: "det3 (create_pose (a, b, t)) = 1" by (rule det3_create_pose)
  have c: "cos t * cos t + sin t * sin t = 1" by simp
  have c': "sin t * sin t + cos t * cos t = 1" by (simp add: add.commute)
  show ?thesis
    unfolding v np_linalg_inv_def
    using d c c' by (simp add: create_pose_def matmul_def identity3_def Let_def algebra_simps)
qed

lemma move_particle_identity:
  "move_particle identity3 p = p\<lparr>theta := arctan2 (sin (theta p)) (cos (theta p))\<rparr>"
  by (simp add: move_particle_def create_pose_def matmul_def identity3_def)

lemma cos_neg_upper: "pi / 2 < t \<Longrightarrow> t \<le> pi \<Longrightarrow> cos t < 0"
  using cos_gt_zero_pi[of "t - pi"] by simp

lemma cos_neg_lower: "- pi < t \<Longrightarrow> t < - (pi / 2) \<Longrightarrow> cos t < 0"
  using cos_gt_zero_pi[of "t + pi"] by simp

lemma sin_neg_lower: "- pi < t \<Longrightarrow> t < 0 \<Longrightarrow> sin t < 0"
  using sin_gt_zero[of "t + pi"] by simp

lemma arctan2_sin_cos:
  assumes "- pi < t" "t \<le> pi"
  shows "arctan2 (sin t) (cos t) = t"
proof -
  consider (A) "t < - (pi / 2)" | (B) "t = - (pi / 2)" | (C) "- (pi / 2) < t" "t < pi / 2"
    | (D) "t = pi / 2" | (E) "pi / 2 < t"
    by linarith
  then show ?thesis
  proof cases
    case A
    have c: "cos t < 0" using assms A by (intro cos_neg_lower)
    have s: "sin t < 0" using assms A pi_gt_zero by (intro sin_neg_lower) linarith+
    have "arctan (tan (t + pi)) = t + pi"
      using assms A by (intro arctan_tan) linarith+
    then have "arctan (sin t / cos t) = t + pi" by (simp add: tan_def)
    then show ?thesis using c s by (simp add: arctan2_def)
  next
    case B
    have "arctan2 (sin (- (pi / 2))) (cos (- (pi / 2))) = - (pi / 2)" by (simp add: arctan2_def)
    then show ?thesis unfolding B .
  next
    case C
    have c: "0 < cos t" using C by (intro cos_gt_zero_pi)
    have "arctan (tan t) = t" using C by (intro arctan_tan)
    then have "arctan (sin t / cos t) = t" by (simp add: tan_def)
    then show ?thesis using c by (simp add: arctan2_def)
  next
    case D
    have "arctan2 (sin (pi / 2)) (cos (pi / 2)) = pi / 2" by (simp add: arctan2_def)
    then show ?thesis unfolding D .
  next
    case E
    have c: "cos t < 0" using assms E by (intro cos_neg_upper)
    have s: "0 \<le> sin t" using assms E pi_gt_zero by (intro sin_ge_zero) linarith+
    have "arctan (tan (t - pi)) = t - pi"
      using assms E by (intro arctan_tan) linarith+
    then have "arctan (sin t / cos t) = t - pi" by (simp add: tan_def)
    then show ?thesis using c s by (simp add: arctan2_def)
  qed
qed

lemma principal_angle:
  "\<exists>k::int. - pi < t - 2 * pi * of_int k \<and> t - 2 * pi * of_int k \<le> pi"
proof -
  define k :: int where "k = \<lceil>(t - pi) / (2 * pi)\<rceil>"
  have up: "(t - pi) / (2 * pi) \<le> of_int k" unfolding k_def by (rule le_of_int_ceiling)
  have lo: "of_int k - 1 < (t - pi) / (2 * pi)" unfolding k_def by linarith
  have p: "0 < 2 * pi" by simp
  from up have "t - pi \<le> of_int k * (2 * pi)"
    using p by (simp add: pos_divide_le_eq)
  moreover from lo have "(of_int k - 1) * (2 * pi) < t - pi"
    using p by (simp add: pos_less_divide_eq)
  ultimately show ?thesis
    by (intro exI[of _ k]) (simp add: algebra_simps)
qed

lemma sin_shift: "sin (t - 2 * pi * of_int k) = sin t"
  by (simp add: sin_diff)

lemma cos_shift: "cos (t - 2 * pi * of_int k) = cos t"
  by (simp add: cos_diff)

lemma arctan2_principal:
  "- pi < arctan2 (sin t) (cos t) \<and> arctan2 (sin t) (cos t) \<le> pi \<and>
   (\<exists>k::int. t = arctan2 (sin t) (cos t) + 2 * pi * of_int k)"
proof -
  obtain k :: int where k: "- pi < t - 2 * pi * of_int k" "t - 2 * pi * of_int k \<le> pi"
    using principal_angle by blast
  have "arctan2 (sin (t - 2 * pi * of_int k)) (cos (t - 2 * pi * of_int k)) = t - 2 * pi * of_int k"
    using k by (rule arctan2_sin_cos)
  then have e: "arctan2 (sin t) (cos t) = t - 2 * pi * of_int k"
    by (simp only: sin_shift cos_shift)
  show ?thesis unfolding e using k by (auto intro: exI[of _ k])
qed


lemma update_particles_with_odom_identity:
  assumes "odom_pose s = Some v" "current_odom_xy_theta s = Some v"
  shows "update_particles_with_odom s =
     Inr (s\<lparr>current_odom_xy_theta := Some v,
            particle_cloud := map (\<lambda>p. p\<lparr>theta := arctan2 (sin (theta p)) (cos (theta p))\<rparr>)
              (particle_cloud s)\<rparr>)"
proof -
  obtain iv where iv: "np_linalg_inv (create_pose v) = Inr iv" "matmul iv (create_pose v) = identity3"
    using inv_create_pose by blast
  show ?thesis
    using assms iv by (simp add: update_particles_with_odom_def move_particle_identity)
qed

text \<open>
  C3, as amended. When the odometry reference equals the new odometry pose, the motion
  update returns and leaves the position and the weight of every particle unchanged.
  The heading is read back from the rotation block with \<open>arctan2\<close>: the new heading
  lies in the interval from \<open>-\<pi>\<close> (excluded) to \<open>\<pi>\<close> (included) and differs from the
  old one by a whole number of turns. A particle whose heading is already in that
  interval is unchanged.
\<close>

theorem odom_identity_delta:
  assumes "odom_pose s = Some v" "current_odom_xy_theta s = Some v"
  shows "\<exists>s'. update_particles_with_odom s = Inr s' \<and>
           length (particle_cloud s') = length (particle_cloud s) \<and>
           (\<forall>i<length (particle_cloud s).
              x (particle_cloud s' ! i) = x (particle_cloud s ! i) \<and>
              y (particle_cloud s' ! i) = y (particle_cloud s ! i) \<and>
              w (particle_cloud s' ! i) = w (particle_cloud s ! i) \<and>
              theta (particle_cloud s' ! i) =
                arctan2 (sin (theta (particle_cloud s ! i))) (cos (theta (particle_cloud s ! i))) \<and>
              - pi < theta (particle_cloud s' ! i) \<and> theta (particle_cloud s' ! i) \<le> pi \<and>
              (\<exists>k::int. theta (particle_cloud s ! i) =
                           theta (particle_cloud s' ! i) + 2 * pi * of_int k) \<and>
              (- pi < theta (particle_cloud s ! i) \<and> theta (particle_cloud s ! i) \<le> pi \<longrightarrow>
                 particle_cloud s' ! i = particle_cloud s ! i))"
proof -
  let ?f = "\<lambda>p. p\<lparr>theta := arctan2 (sin (theta p)) (cos (theta p))\<rparr>"
  let ?s' = "s\<lparr>current_odom_xy_theta := Some v, particle_cloud := map ?f (particle_cloud s)\<rparr>"
  have up: "update_particles_with_odom s = Inr ?s'"
    using assms by (rule update_particles_with_odom_identity)
  have each: "x (?f p) = x p \<and> y (?f p) = y p \<and> w (?f p) = w p \<and>
      theta (?f p) = arctan2 (sin (theta p)) (cos (theta p)) \<and>
      - pi < theta (?f p) \<and> theta (?f p) \<le> pi \<and>
      (\<exists>k::int. theta p = theta (?f p) + 2 * pi * of_int k) \<and>
      (- pi < theta p \<and> theta p \<le> pi \<longrightarrow> ?f p = p)" for p
    using arctan2_principal[of "theta p"] arctan2_sin_cos[of "theta p"] by simp
  have "\<forall>i<length (particle_cloud s).
              x (particle_cloud ?s' ! i) = x (particle_cloud s ! i) \<and>
              y (particle_cloud ?s' ! i) = y (particle_cloud s ! i) \<and>
              w (particle_cloud ?s' ! i) = w (particle_cloud s ! i) \<and>
              theta (particle_cloud ?s' ! i) =
                arctan2 (sin (theta (particle_cloud s ! i))) (cos (theta (particle_cloud s ! i))) \<and>
              - pi < theta (particle_cloud ?s' ! i) \<and> theta (particle_cloud ?s' ! i) \<le> pi \<and>
              (\<exists>k::int. theta (particle_cloud s ! i) =
                           theta (particle_cloud ?s' ! i) + 2 * pi * of_int k) \<and>
              (- pi < theta (particle_cloud s ! i) \<and> theta (particle_cloud s ! i) \<le> pi \<longrightarrow>
                 particle_cloud ?s' ! i = particle_cloud s ! i)"
  proof (intro allI impI)
    fix i assume "i < length (particle_cloud s)"
    then show "x (particle_cloud ?s' ! i) = x (particle_cloud s ! i) \<and>
              y (particle_cloud ?s' ! i) = y (particle_cloud s ! i) \<and>
              w (particle_cloud ?s' ! i) = w (particle_cloud s ! i) \<and>
              theta (particle_cloud ?s' ! i) =
                arctan2 (sin (theta (particle_cloud s ! i))) (cos (theta (particle_cloud s ! i))) \<and>
              - pi < theta (particle_cloud ?s' ! i) \<and> theta (particle_cloud ?s' ! i) \<le> pi \<and>
              (\<exists>k::int. theta (particle_cloud s ! i) =
                           theta (particle_cloud ?s' ! i) + 2 * pi * of_int k) \<and>
              (- pi < theta (particle_cloud s ! i) \<and> theta (particle_cloud s ! i) \<le> pi \<longrightarrow>
                 particle_cloud ?s' ! i = particle_cloud s ! i)"
      using each[of "particle_cloud s ! i"] by simp
  qed
  moreover have "length (particle_cloud ?s') = length (particle_cloud s)" by simp
  ultimately show ?thesis using up by blast
qed

lemma full_turn_eval:
  "update_particles_with_odom full_turn_state =
     Inr (full_turn_state\<lparr>particle_cloud := [Particle 0 0 0, Particle 1 2 (pi / 2)]\<rparr>)"
proof -
  have a: "arctan2 0 1 = 0" by (simp add: arctan2_def)
  have b: "arctan2 1 0 = pi / 2" by (simp add: arctan2_def)
  have o: "odom_pose full_turn_state = Some (3, 4, 1)"
    and c: "current_odom_xy_theta full_turn_state = Some (3, 4, 1)"
    by (simp_all add: full_turn_state_def)
  show ?thesis
    unfolding update_particles_with_odom_identity[OF o c]
    by (simp add: full_turn_state_def Particle_def a b)
qed

text \<open>
  C3 as stated fails for a heading outside the interval: with an identity delta, a
  particle with heading \<open>2\<pi>\<close> comes out with heading 0.
\<close>

theorem odom_identity_changes_theta:
  "odom_pose full_turn_state = current_odom_xy_theta full_turn_state \<and>
   map theta (particle_cloud full_turn_state) = [2 * pi, pi / 2] \<and>
   map theta (particle_cloud (after_call full_turn_state (update_particles_with_odom full_turn_state)))
     = [0, pi / 2] \<and>
   2 * pi \<noteq> (0::real) \<and> \<not> (2 * pi < pi)"
  by (simp add: full_turn_eval after_call_def) (simp add: full_turn_state_def Particle_def)

theorem odom_identity_delta_witness:
  "odom_pose full_turn_state = Some (3, 4, 1) \<and>
   current_odom_xy_theta full_turn_state = Some (3, 4, 1) \<and>
   (\<exists>s'. update_particles_with_odom full_turn_state = Inr s' \<and>
           length (particle_cloud s') = length (particle_cloud full_turn_state) \<and>
           (\<forall>i<length (particle_cloud full_turn_state).
              x (particle_cloud s' ! i) = x (particle_cloud full_turn_state ! i) \<and>
              y (particle_cloud s' ! i) = y (particle_cloud full_turn_state ! i) \<and>
              w (particle_cloud s' ! i) = w (particle_cloud full_turn_state ! i) \<and>
              theta (particle_cloud s' ! i) =
                arctan2 (sin (theta (particle_cloud full_turn_state ! i)))
                  (cos (theta (particle_cloud full_turn_state ! i))) \<and>
              - pi < theta (particle_cloud s' ! i) \<and> theta (particle_cloud s' ! i) \<le> pi \<and>
              (\<exists>k::int. theta (particle_cloud full_turn_state ! i) =
                           theta (particle_cloud s' ! i) + 2 * pi * of_int k) \<and>
              (- pi < theta (particle_cloud full_turn_state ! i) \<and>
               theta (particle_cloud full_turn_state ! i) \<le> pi \<longrightarrow>
                 particle_cloud s' ! i = particle_cloud full_turn_state ! i))) \<and>
   - pi < theta (particle_cloud full_turn_state ! 1) \<and>
   theta (particle_cloud full_turn_state ! 1) \<le> pi"
proof -
  have o: "odom_pose full_turn_state = Some (3, 4, 1)"
    and c: "current_odom_xy_theta full_turn_state = Some (3, 4, 1)"
    by (simp_all add: full_turn_state_def)
  have lo: "- pi < theta (particle_cloud full_turn_state ! 1)"
    and hi: "theta (particle_cloud full_turn_state ! 1) \<le> pi"
    by (simp_all add: full_turn_state_def Particle_def)
  show ?thesis
    by (intro conjI o c lo hi odom_identity_delta[OF o c])
qed

section \<open>Properties of the update trigger\<close>

text \<open>
  C5. In the tracking state (an odometry reference is recorded and the population is
  not empty), with the thresholds 0.2 and \<open>\<pi>/6\<close>, the update cycle takes the arm
  that runs the full pipeline exactly when the new odometry pose differs from the
  reference by more than 0.2 in the first or in the second coordinate or by more than
  \<open>\<pi>/6\<close> in heading, and otherwise the arm that changes nothing but the recorded
  odometry pose. A displacement of exactly 0.2 in the first coordinate alone does not
  trigger the update.
\<close>

theorem update_trigger_strict:
  assumes "current_odom_xy_theta s = Some (c0, c1, c2)" "particle_cloud s \<noteq> []"
    and "d_thresh s = 2 / 10" "a_thresh s = pi / 6"
  shows "(run_loop_branch s (n0, n1, n2) = Inr Full_Update \<longleftrightarrow>
            \<bar>n0 - c0\<bar> > 2 / 10 \<or> \<bar>n1 - c1\<bar> > 2 / 10 \<or> \<bar>n2 - c2\<bar> > pi / 6) \<and>
         (run_loop_branch s (n0, n1, n2) = Inr No_Update \<longleftrightarrow>
            \<not> (\<bar>n0 - c0\<bar> > 2 / 10 \<or> \<bar>n1 - c1\<bar> > 2 / 10 \<or> \<bar>n2 - c2\<bar> > pi / 6)) \<and>
         run_loop_branch s (c0 + 2 / 10, c1, c2) = Inr No_Update \<and>
         run_loop qfe occ draw uniform s (n0, n1, n2) r bearings =
           (if \<bar>n0 - c0\<bar> > 2 / 10 \<or> \<bar>n1 - c1\<bar> > 2 / 10 \<or> \<bar>n2 - c2\<bar> > pi / 6
            then run_pipeline qfe occ draw uniform (s\<lparr>odom_pose := Some (n0, n1, n2)\<rparr>) r bearings
            else Inr (s\<lparr>odom_pose := Some (n0, n1, n2)\<rparr>))"
  by (simp add: assms run_loop_branch_def run_loop_def moved_far_enough_to_update_def)

theorem update_trigger_strict_witness:
  "current_odom_xy_theta tracking_state = Some (1, 1, 0) \<and> particle_cloud tracking_state \<noteq> [] \<and>
   d_thresh tracking_state = 2 / 10 \<and> a_thresh tracking_state = pi / 6 \<and>
   run_loop_branch tracking_state (1 + 2 / 10, 1, 0) = Inr No_Update \<and>
   run_loop_branch tracking_state (1 + 3 / 10, 1, 0) = Inr Full_Update"
proof -
  have a: "current_odom_xy_theta tracking_state = Some (1, 1, 0)"
    and b: "particle_cloud tracking_state \<noteq> []"
    and c: "d_thresh tracking_state = 2 / 10" and d: "a_thresh tracking_state = pi / 6"
    by (simp_all add: tracking_state_def init_state_def)
  have e: "run_loop_branch tracking_state (1 + 2 / 10, 1, 0) = Inr No_Update"
    using update_trigger_strict[OF a b c d] by blast
  have "run_loop_branch tracking_state (1 + 3 / 10, 1, 0) = Inr Full_Update \<longleftrightarrow>
      \<bar>1 + 3 / 10 - 1\<bar> > (2 / 10 :: real) \<or> \<bar>1 - 1\<bar> > (2 / 10 :: real) \<or> \<bar>0 - 0\<bar> > pi / 6"
    using update_trigger_strict[OF a b c d, of "1 + 3 / 10" 1 0] by blast
  then have f: "run_loop_branch tracking_state (1 + 3 / 10, 1, 0) = Inr Full_Update" by simp
  show ?thesis by (intro conjI a b c d e f)
qed

section \<open>Properties of initialization\<close>

lemma length_seed_particles: "length (seed_particles m n dt) = n"
  by (cases m) (simp add: seed_particles_def)

lemma nth_seed_particles:
  "i < n \<Longrightarrow> seed_particles (x0, y0, t0) n dt ! i = Particle x0 y0 (t0 + dt * real i)"
  by (simp add: seed_particles_def)

lemma argmax_scan_all_one:
  "\<forall>v\<in>set vs. v = Fin 1 \<Longrightarrow> argmax_scan vs i mi (Fin 1) = mi"
  by (induction vs arbitrary: i) simp_all

lemma np_argmax_seed:
  assumes "0 < n"
  shows "np_argmax (map w (seed_particles m n dt)) = Inr 0"
proof -
  obtain x0 y0 t0 where m: "m = (x0, y0, t0)" by (cases m) auto
  let ?ws = "map w (seed_particles m n dt)"
  have all: "\<forall>v\<in>set ?ws. v = Fin 1"
    by (auto simp: m seed_particles_def Particle_def)
  have "length ?ws = n" by (simp add: length_seed_particles)
  then have "?ws \<noteq> []" using assms by auto
  then obtain v vs where ws: "?ws = v # vs" by (cases ?ws) auto
  then have "v = Fin 1" "\<forall>u\<in>set vs. u = Fin 1" using all by auto
  then show ?thesis
    unfolding np_argmax_def ws by (simp add: argmax_scan_all_one)
qed

text \<open>
  C6. With a positive particle count \<open>N\<close>, initialization around the mean pose
  \<open>(x0, y0, theta0)\<close> returns with a population of exactly \<open>N\<close> particles; particle
  \<open>i\<close> is at \<open>(x0, y0)\<close> with heading \<open>theta0 + i * (2\<pi> / N)\<close> and the constructor's
  weight 1. The result is what the pose estimator gives on the freshly seeded
  population, and the estimate it stores is the pose of the first particle.
\<close>

theorem initialize_particle_cloud_fan:
  assumes "0 < n_particles s"
  shows "\<exists>s'. initialize_particle_cloud qfe s (Some (x0, y0, theta0)) = Inr s' \<and>
           length (particle_cloud s') = n_particles s \<and>
           (\<forall>i<n_particles s.
              particle_cloud s' ! i =
                \<lparr>x = x0, y = y0, theta = theta0 + real i * (2 * pi / real (n_particles s)), w = Fin 1\<rparr>) \<and>
           update_robot_pose qfe (s\<lparr>particle_cloud := particle_cloud s'\<rparr>) = Inr s' \<and>
           robot_pose s' = Some (as_pose qfe (particle_cloud s' ! 0))"
proof -
  let ?dt = "2 * pi / real (n_particles s)"
  let ?seeded = "s\<lparr>particle_cloud := seed_particles (x0, y0, theta0) (n_particles s) ?dt\<rparr>"
  let ?s' = "?seeded\<lparr>robot_pose := Some (as_pose qfe (particle_cloud ?seeded ! 0))\<rparr>"
  have am: "np_argmax (map w (particle_cloud ?seeded)) = Inr 0"
    using assms by (simp add: np_argmax_seed)
  have up: "update_robot_pose qfe ?seeded = Inr ?s'"
    using am by (simp add: update_robot_pose_def)
  have init: "initialize_particle_cloud qfe s (Some (x0, y0, theta0)) = Inr ?s'"
    using assms up by (simp add: initialize_particle_cloud_def)
  have len: "length (particle_cloud ?s') = n_particles s"
    by (simp add: length_seed_particles)
  have each: "\<forall>i<n_particles s. particle_cloud ?s' ! i =
      \<lparr>x = x0, y = y0, theta = theta0 + real i * ?dt, w = Fin 1\<rparr>"
    by (simp add: nth_seed_particles Particle_def mult.commute)
  have again: "update_robot_pose qfe (s\<lparr>particle_cloud := particle_cloud ?s'\<rparr>) = Inr ?s'"
    using up by simp
  have rp: "robot_pose ?s' = Some (as_pose qfe (particle_cloud ?s' ! 0))" by simp
  show ?thesis
    using init len each again rp by blast
qed

theorem initialize_particle_cloud_fan_witness:
  "0 < n_particles init_state \<and> n_particles init_state = 100 \<and>
   (\<exists>s'. initialize_particle_cloud yaw_quaternion init_state (Some (0, 0, 0)) = Inr s' \<and>
           length (particle_cloud s') = n_particles init_state \<and>
           (\<forall>i<n_particles init_state.
              particle_cloud s' ! i =
                \<lparr>x = 0, y = 0, theta = 0 + real i * (2 * pi / real (n_particles init_state)), w = Fin 1\<rparr>) \<and>
           update_robot_pose yaw_quaternion (init_state\<lparr>particle_cloud := particle_cloud s'\<rparr>) = Inr s' \<and>
           robot_pose s' = Some (as_pose yaw_quaternion (particle_cloud s' ! 0)))"
proof -
  have n: "0 < n_particles init_state" and h: "n_particles init_state = 100"
    by (simp_all add: init_state_def)
  show ?thesis
    by (intro conjI n h initialize_particle_cloud_fan[OF n])
qed

section \<open>Properties of resampling\<close>

lemma length_resample_step: "length (resample_step u c st) = length c"
  by (cases st) (simp add: resample_step_def)

lemma weights_resample_step: "map w (resample_step u c st) = map w c"
proof -
  obtain i ir d where st: "st = (i, ir, d)" by (cases st) auto
  show ?thesis
  proof (cases "ir < length c")
    case True
    then have "(map w c)[ir := w (c ! ir)] = map w c"
      by (metis list_update_id nth_map)
    then show ?thesis by (simp add: st resample_step_def map_update)
  next
    case False
    then have "c[ir := v] = c" for v by (simp add: list_update_beyond)
    then show ?thesis by (simp add: st resample_step_def)
  qed
qed

lemma nth_resample_step_other:
  "fst (snd st) \<noteq> j \<Longrightarrow> resample_step u c st ! j = c ! j"
  by (cases st) (simp add: resample_step_def)

lemma length_resample_loop: "length (foldl (resample_step u) c steps) = length c"
  by (induction steps arbitrary: c) (simp_all add: length_resample_step)

lemma weights_resample_loop: "map w (foldl (resample_step u) c steps) = map w c"
  by (induction steps arbitrary: c) (simp_all add: weights_resample_step)

lemma nth_resample_loop_other:
  "\<forall>st\<in>set steps. fst (snd st) \<noteq> j \<Longrightarrow> foldl (resample_step u) c steps ! j = c ! j"
  by (induction steps arbitrary: c) (simp_all add: nth_resample_step_other)

lemma replaced_indices:
  "st \<in> set (zip ns (zip L ds)) \<Longrightarrow> fst (snd st) \<in> set L"
proof -
  assume a: "st \<in> set (zip ns (zip L ds))"
  obtain i ir d where st: "st = (i, ir, d)" by (cases st) auto
  from a have "(ir, d) \<in> set (zip L ds)" unfolding st by (rule set_zip_rightD)
  then have "ir \<in> set L" by (rule set_zip_leftD)
  then show ?thesis by (simp add: st)
qed

lemma resample_particles_Inr:
  assumes "resample_particles draw uniform cloud = Inr cloud'"
  shows "\<exists>cutoff ds. np_percentile (map w cloud) 20 = Inr cutoff \<and>
      cloud' = foldl (resample_step uniform) cloud
          (zip [0..<length (particles_to_replace (map w cloud) cutoff)]
             (zip (particles_to_replace (map w cloud) cutoff) ds))"
  using assms unfolding resample_particles_def Let_def
  by (auto split: sum.splits)

lemma length_resample_particles:
  "length (after_call cloud (resample_particles draw uniform cloud)) = length cloud"
proof (cases "resample_particles draw uniform cloud")
  case (Inl e)
  then show ?thesis by (simp add: after_call_def)
next
  case (Inr cloud')
  from resample_particles_Inr[OF Inr] show ?thesis
    by (auto simp: after_call_def Inr length_resample_loop)
qed

lemma weights_resample_particles:
  "map w (after_call cloud (resample_particles draw uniform cloud)) = map w cloud"
proof (cases "resample_particles draw uniform cloud")
  case (Inl e)
  then show ?thesis by (simp add: after_call_def)
next
  case (Inr cloud')
  from resample_particles_Inr[OF Inr] show ?thesis
    by (auto simp: after_call_def Inr weights_resample_loop)
qed

lemma untouched_resample_particles:
  assumes c: "np_percentile (map w cloud) 20 = Inr cutoff"
    and j: "j \<notin> set (particles_to_replace (map w cloud) cutoff)"
  shows "after_call cloud (resample_particles draw uniform cloud) ! j = cloud ! j"
proof (cases "resample_particles draw uniform cloud")
  case (Inl e)
  then show ?thesis by (simp add: after_call_def)
next
  case (Inr cloud')
  from resample_particles_Inr[OF Inr] c obtain ds where
    cl: "cloud' = foldl (resample_step uniform) cloud
          (zip [0..<length (particles_to_replace (map w cloud) cutoff)]
             (zip (particles_to_replace (map w cloud) cutoff) ds))"
    by auto
  have "cloud' ! j = cloud ! j"
    unfolding cl using j replaced_indices by (intro nth_resample_loop_other) blast
  then show ?thesis by (simp add: after_call_def Inr)
qed

lemma in_particles_to_replace:
  "j \<in> set (particles_to_replace (map w cloud) cutoff) \<longleftrightarrow>
     j < length cloud \<and> fle (w (cloud ! j)) cutoff"
  by (auto simp: particles_to_replace_def)

text \<open>
  C9. Resampling never changes a weight: the weights of the population after the call
  are the weights before it, whether the call returns or raises. A particle that is not
  in the selected set, that is whose weight is not at most the 20th percentile, is left
  entirely unchanged.
\<close>

theorem resample_frame:
  "map w (after_call cloud (resample_particles draw uniform cloud)) = map w cloud \<and>
   (\<forall>cutoff j. np_percentile (map w cloud) 20 = Inr cutoff \<longrightarrow>
        j < length cloud \<longrightarrow> \<not> fle (w (cloud ! j)) cutoff \<longrightarrow>
        after_call cloud (resample_particles draw uniform cloud) ! j = cloud ! j) \<and>
   (\<forall>cutoff cloud' j. np_percentile (map w cloud) 20 = Inr cutoff \<longrightarrow>
        resample_particles draw uniform cloud = Inr cloud' \<longrightarrow>
        j < length cloud \<longrightarrow>
        w (cloud' ! j) = w (cloud ! j) \<and>
        (j \<notin> set (particles_to_replace (map w cloud) cutoff) \<longrightarrow> cloud' ! j = cloud ! j))"
proof (intro conjI allI impI)
  show "map w (after_call cloud (resample_particles draw uniform cloud)) = map w cloud"
    by (rule weights_resample_particles)
next
  fix cutoff j
  assume c: "np_percentile (map w cloud) 20 = Inr cutoff" and "j < length cloud"
    and "\<not> fle (w (cloud ! j)) cutoff"
  then have "j \<notin> set (particles_to_replace (map w cloud) cutoff)"
    by (simp add: in_particles_to_replace)
  with c show "after_call cloud (resample_particles draw uniform cloud) ! j = cloud ! j"
    by (rule untouched_resample_particles)
next
  fix cutoff cloud' j
  assume c: "np_percentile (map w cloud) 20 = Inr cutoff"
    and r: "resample_particles draw uniform cloud = Inr cloud'" and j: "j < length cloud"
  have a: "after_call cloud (resample_particles draw uniform cloud) = cloud'"
    by (simp add: r after_call_def)
  have "map w cloud' = map w cloud"
    using weights_resample_particles[of cloud draw uniform] by (simp add: a)
  moreover have "length cloud' = length cloud"
    using length_resample_particles[of cloud draw uniform] by (simp add: a)
  ultimately show "w (cloud' ! j) = w (cloud ! j)"
    using j by (metis nth_map)
next
  fix cutoff cloud' j
  assume c: "np_percentile (map w cloud) 20 = Inr cutoff"
    and r: "resample_particles draw uniform cloud = Inr cloud'"
    and n: "j \<notin> set (particles_to_replace (map w cloud) cutoff)"
  have a: "after_call cloud (resample_particles draw uniform cloud) = cloud'"
    by (simp add: r after_call_def)
  show "cloud' ! j = cloud ! j"
    using untouched_resample_particles[OF c n, of draw uniform] by (simp add: a)
qed

lemmas resample_eval =
  resample_particles_def np_percentile_def sort_np_def lerp_def fsub_def
  particles_to_replace_def np_random_choice_def np_sum_def flt_def choice_atol_def
  resample_step_def

lemma quarter_percentile: "np_percentile (map w quarter_cloud) 20 = Inr (Fin (7 / 20))"
  by (simp add: quarter_cloud_def np_percentile_def sort_np_def lerp_def fsub_def)

lemma quarter_eval:
  "resample_particles (\<lambda>i. 1) (\<lambda>i. 1 / 2) quarter_cloud =
     Inr [\<lparr>x = 1, y = 2, theta = 3 + 1 / 2, w = Fin (1 / 4)\<rparr>,
          \<lparr>x = 1, y = 2, theta = 3, w = Fin (3 / 4)\<rparr>]"
  by (simp add: quarter_cloud_def resample_eval)

lemma zero_eval: "resample_particles draw uniform zero_cloud = Inl ValueError"
  by (simp add: zero_cloud_def resample_eval)

section \<open>Population size and the pipeline\<close>

lemma length_update_particles_with_odom:
  "length (particle_cloud (after_call s (update_particles_with_odom s))) = length (particle_cloud s)"
  by (auto simp: update_particles_with_odom_def after_call_def Let_def
      split: option.splits sum.splits)

lemma length_update_particles_with_laser:
  "length (after_call cloud (update_particles_with_laser occ cloud r bearings)) = length cloud"
  by (auto simp: update_particles_with_laser_def after_call_def error_ratio_def
      assign_weights_def laser_weights_def laser_errors_def particle_distances_def Let_def
      split: sum.splits list.splits)

lemma cloud_update_robot_pose:
  "particle_cloud (after_call s (update_robot_pose qfe s)) = particle_cloud s"
  by (auto simp: update_robot_pose_def after_call_def Let_def split: sum.splits)

lemma length_run_pipeline:
  assumes "run_pipeline qfe occ draw uniform s r bearings = Inr s'"
  shows "length (particle_cloud s') = length (particle_cloud s)"
proof -
  from assms obtain s1 c2 s3 c4 where
    a: "update_particles_with_odom s = Inr s1"
    and b: "update_particles_with_laser occ (particle_cloud s1) r bearings = Inr c2"
    and c: "update_robot_pose qfe (s1\<lparr>particle_cloud := c2\<rparr>) = Inr s3"
    and d: "resample_particles draw uniform (particle_cloud s3) = Inr c4"
    and e: "s' = s3\<lparr>particle_cloud := c4\<rparr>"
    unfolding run_pipeline_def by (auto split: sum.splits)
  have "length (particle_cloud s1) = length (particle_cloud s)"
    using length_update_particles_with_odom[of s] by (simp add: a after_call_def)
  moreover have "length c2 = length (particle_cloud s1)"
    using length_update_particles_with_laser[of "particle_cloud s1" occ r bearings]
    by (simp add: b after_call_def)
  moreover have "particle_cloud s3 = c2"
    using cloud_update_robot_pose[of "s1\<lparr>particle_cloud := c2\<rparr>" qfe] by (simp add: c after_call_def)
  moreover have "length c4 = length (particle_cloud s3)"
    using length_resample_particles[of "particle_cloud s3" draw uniform] by (simp add: d after_call_def)
  ultimately show ?thesis by (simp add: e)
qed

text \<open>
  C8. The size of the population is the same before and after the motion update, the
  measurement update, the pose estimate (which does not touch the population at all)
  and resampling, whether the call returns or raises; in particular resampling keeps
  the size for every input. A pipeline run that returns keeps the size as well.
\<close>

theorem population_size_constant:
  "length (particle_cloud (after_call s (update_particles_with_odom s))) = length (particle_cloud s) \<and>
   length (after_call cloud (update_particles_with_laser occ cloud r bearings)) = length cloud \<and>
   particle_cloud (after_call s (update_robot_pose qfe s)) = particle_cloud s \<and>
   length (after_call cloud (resample_particles draw uniform cloud)) = length cloud \<and>
   (\<forall>s'. run_pipeline qfe occ draw uniform s r bearings = Inr s' \<longrightarrow>
      length (particle_cloud s') = length (particle_cloud s))"
  using length_update_particles_with_odom length_update_particles_with_laser
    cloud_update_robot_pose length_resample_particles length_run_pipeline
  by blast

lemma pipeline_eval:
  "run_pipeline yaw_quaternion unknown_occ (\<lambda>i. 0) (\<lambda>i. 1 / 4) pipeline_state [Fin 4, Fin (5 / 2)] []
     = Inr pipeline_result"
proof -
  have o: "odom_pose pipeline_state = Some (0, 0, 0)"
    and c: "current_odom_xy_theta pipeline_state = Some (0, 0, 0)"
    by (simp_all add: pipeline_state_def)
  have z: "arctan2 0 1 = 0" by (simp add: arctan2_def)
  have m: "update_particles_with_odom pipeline_state = Inr pipeline_state"
    unfolding update_particles_with_odom_identity[OF o c]
    by (simp add: pipeline_state_def unknown_cloud_def Particle_def z)
  have l: "update_particles_with_laser unknown_occ (particle_cloud pipeline_state) [Fin 4, Fin (5 / 2)] [] =
     Inr [\<lparr>x = 0, y = 0, theta = 0, w = Fin (10 / 21)\<rparr>,
          \<lparr>x = 1, y = 0, theta = 0, w = Fin (1 / 21)\<rparr>,
          \<lparr>x = 2, y = 0, theta = 0, w = Fin (10 / 21)\<rparr>]"
    using unknown_eval by (simp add: pipeline_state_def)
  show ?thesis
    unfolding run_pipeline_def m
    by (simp add: l update_robot_pose_def np_argmax_def as_pose_def yaw_quaternion_def
        resample_eval pipeline_result_def)
qed

theorem population_size_constant_witness:
  "run_pipeline yaw_quaternion unknown_occ (\<lambda>i. 0) (\<lambda>i. 1 / 4) pipeline_state [Fin 4, Fin (5 / 2)] []
     = Inr pipeline_result \<and>
   length (particle_cloud pipeline_result) = length (particle_cloud pipeline_state) \<and>
   length (particle_cloud pipeline_result) = 3 \<and>
   length (after_call zero_cloud (resample_particles (\<lambda>i. 0) (\<lambda>i. 1 / 4) zero_cloud)) = length zero_cloud \<and>
   resample_particles (\<lambda>i. 0) (\<lambda>i. 1 / 4) zero_cloud = Inl ValueError"
proof -
  note t = population_size_constant[of pipeline_state zero_cloud unknown_occ "[Fin 4, Fin (5 / 2)]" "[]"
      yaw_quaternion "\<lambda>i. 0" "\<lambda>i. 1 / 4"]
  have a: "length (particle_cloud pipeline_result) = length (particle_cloud pipeline_state)"
    using t pipeline_eval by blast
  have b: "length (particle_cloud pipeline_result) = 3"
    by (simp add: pipeline_result_def)
  have c: "length (after_call zero_cloud (resample_particles (\<lambda>i. 0) (\<lambda>i. 1 / 4) zero_cloud)) =
      length zero_cloud"
    using t by blast
  show ?thesis
    by (intro conjI pipeline_eval a b c zero_eval)
qed

theorem resample_frame_witness:
  "np_percentile (map w quarter_cloud) 20 = Inr (Fin (7 / 20)) \<and>
   1 < length quarter_cloud \<and>
   \<not> fle (w (quarter_cloud ! 1)) (Fin (7 / 20)) \<and>
   resample_particles (\<lambda>i. 1) (\<lambda>i. 1 / 2) quarter_cloud =
     Inr [\<lparr>x = 1, y = 2, theta = 3 + 1 / 2, w = Fin (1 / 4)\<rparr>,
          \<lparr>x = 1, y = 2, theta = 3, w = Fin (3 / 4)\<rparr>] \<and>
   map w (after_call quarter_cloud (resample_particles (\<lambda>i. 1) (\<lambda>i. 1 / 2) quarter_cloud)) =
     map w quarter_cloud \<and>
   after_call quarter_cloud (resample_particles (\<lambda>i. 1) (\<lambda>i. 1 / 2) quarter_cloud) ! 1 =
     quarter_cloud ! 1"
proof -
  note t = resample_frame[of quarter_cloud "\<lambda>i. 1" "\<lambda>i. 1 / 2"]
  have i: "1 < length quarter_cloud" by (simp add: quarter_cloud_def)
  have n: "\<not> fle (w (quarter_cloud ! 1)) (Fin (7 / 20))" by (simp add: quarter_cloud_def)
  have a: "map w (after_call quarter_cloud (resample_particles (\<lambda>i. 1) (\<lambda>i. 1 / 2) quarter_cloud)) =
     map w quarter_cloud"
    using t by blast
  have b: "after_call quarter_cloud (resample_particles (\<lambda>i. 1) (\<lambda>i. 1 / 2) quarter_cloud) ! 1 =
     quarter_cloud ! 1"
    using t quarter_percentile i n by blast
  show ?thesis
    by (intro conjI quarter_percentile i n quarter_eval a b)
qed

text \<open>
  Resampling hands the weights to \<open>np.random.choice\<close> as they are. When no weight is
  negative and their sum is within the tolerance of 1, the call returns; when the sum is
  finite and differs from 1 by more than the tolerance, it raises.
\<close>

lemma resample_accepts_normalised:
  assumes "cloud \<noteq> []" "np_sum (map w cloud) = Fin t" "\<bar>t - 1\<bar> \<le> choice_atol"
    and "\<forall>p\<in>set cloud. \<not> flt (w p) (Fin 0)"
  shows "\<exists>cloud'. resample_particles draw uniform cloud = Inr cloud'"
proof -
  have "\<exists>cutoff. np_percentile (map w cloud) 20 = Inr cutoff"
    using assms(1) unfolding np_percentile_def Let_def by (simp split: if_splits)
  then obtain cutoff where c: "np_percentile (map w cloud) 20 = Inr cutoff" by blast
  have n: "\<not> list_ex (\<lambda>v. flt v (Fin 0)) (map w cloud)"
    using assms(4) by (auto simp: list_ex_iff)
  have a: "\<not> flt (Fin choice_atol) (fabs (fsub (Fin t) (Fin 1)))"
    using assms(3) by (simp add: flt_def fsub_def)
  show ?thesis
    unfolding resample_particles_def np_random_choice_def Let_def
    using assms(1,2) c n a by simp
qed


lemma resample_rejects_unnormalised:
  assumes "np_sum (map w cloud) = Fin t" "choice_atol < \<bar>t - 1\<bar>"
  shows "\<exists>e. resample_particles draw uniform cloud = Inl e"
  using assms unfolding resample_particles_def np_random_choice_def Let_def
  by (auto simp: flt_def fsub_def split: sum.splits)

text \<open>
  C4. The specification has resampling complete for non-negative weights that do not sum
  to 1. On the population the measurement update leaves for predicted distances 2 and 3
  and the observed range 2, where both weights are 0, \<open>resample_particles\<close> raises
  ValueError instead, for every random source.
\<close>

theorem resample_zero_weights_raises:
  "update_particles_with_laser scenario_occ scenario_cloud [Fin 2, Fin 4] [] = Inr zero_cloud \<and>
   resample_particles draw uniform zero_cloud = Inl ValueError"
  by (simp add: scenario_eval zero_eval) (simp add: zero_cloud_def)

end
